theory Spec2Isabelle
  imports Main "HOL-Library.AList"
begin

section \<open>Errors\<close>

text \<open>
  Every \<^verbatim>\<open>raise\<close> of the two modules is a value. A \<^verbatim>\<open>ValueError\<close> carries the
  place that raised it instead of the formatted message.
\<close>

type_synonym key_type = "string \<times> string \<times> string \<times> string \<times> string"

datatype value_error =
    UnknownFieldType
  | ReverseNotFound string
  | UnknownMode string
  | UnknownFieldMode
  | MultipleReverse key_type
  | NoOrigin
  | InvalidMetadata
  | UnionNotDetermined
  | NoDefaultField string

datatype error =
    ValueError value_error
  | NotImplementedError
  | RecursionError
  | KeyError
  | TypeError
  | IndexError

section \<open>foreign\_key\_typing.py: the relationship registry\<close>

subsection \<open>Modes\<close>

definition ONE_TO_ONE :: string where "ONE_TO_ONE = ''OneToOne''"
definition ONE_TO_MANY :: string where "ONE_TO_MANY = ''OneToMany''"
definition MANY_TO_ONE :: string where "MANY_TO_ONE = ''ManyToOne''"
definition MANY_TO_MANY :: string where "MANY_TO_MANY = ''ManyToMany''"

text \<open>The four literals of \<^verbatim>\<open>valid_mode\<close>.\<close>

definition valid_mode :: "string \<Rightarrow> bool" where
  "valid_mode m \<longleftrightarrow>
     m = ONE_TO_ONE \<or> m = ONE_TO_MANY \<or> m = MANY_TO_ONE \<or> m = MANY_TO_MANY"

text \<open>
  \<^verbatim>\<open>field_type_to_mode\<close> looks at a class only through four \<^verbatim>\<open>issubclass\<close> tests.
  The classes tested are the framework's, so a class is given by the answers to the tests.
\<close>

record py_type =
  sub_ForeignKey :: bool
  sub_ManyToManyField :: bool
  sub_OneToOneField :: bool
  sub_OneToManyFieldStandIn :: bool

definition field_type_to_mode :: "py_type \<Rightarrow> error + string" where
  "field_type_to_mode field_type =
     (if sub_ForeignKey field_type then Inr MANY_TO_ONE
      else if sub_ManyToManyField field_type then Inr MANY_TO_MANY
      else if sub_OneToOneField field_type then Inr ONE_TO_ONE
      else if sub_OneToManyFieldStandIn field_type then Inr ONE_TO_MANY
      else Inl (ValueError UnknownFieldType))"

definition flip_mode :: "string \<Rightarrow> error + string" where
  "flip_mode m =
     (if m = ONE_TO_ONE then Inr ONE_TO_ONE
      else if m = ONE_TO_MANY then Inr MANY_TO_ONE
      else if m = MANY_TO_ONE then Inr ONE_TO_MANY
      else if m = MANY_TO_MANY then Inr MANY_TO_MANY
      else Inl (ValueError (ReverseNotFound m)))"

definition str_to_mode :: "string \<Rightarrow> error + string" where
  "str_to_mode m =
     (if m = ONE_TO_ONE then Inr ONE_TO_ONE
      else if m = ONE_TO_MANY then Inr ONE_TO_MANY
      else if m = MANY_TO_ONE then Inr MANY_TO_ONE
      else if m = MANY_TO_MANY then Inr MANY_TO_MANY
      else Inl (ValueError (UnknownMode m)))"

subsection \<open>Relationship records\<close>

text \<open>
  The attributes of a \<^verbatim>\<open>ForeignRegistry\<close> object. \<^verbatim>\<open>fieldB\<close> is optional, as the
  constructor's parameter is: an unknown mode leaves \<^verbatim>\<open>None\<close> in it.
\<close>

record foreign_registry =
  mode :: string
  modelA :: string
  modelB :: string
  fieldA :: string
  fieldB :: "string option"
  reverse_created :: bool

text \<open>
  \<^verbatim>\<open>get_key\<close>: with \<^verbatim>\<open>fieldB\<close> unset the message of the \<^verbatim>\<open>ValueError\<close> calls
  \<^verbatim>\<open>self.get_key()\<close> again, so the call never gets to raise it and ends in the
  interpreter's \<^verbatim>\<open>RecursionError\<close>.
\<close>

definition get_key :: "foreign_registry \<Rightarrow> error + key_type" where
  "get_key self =
     (case fieldB self of
        None \<Rightarrow> Inl RecursionError
      | Some fb \<Rightarrow> Inr (mode self, modelA self, modelB self, fieldA self, fb))"

text \<open>The tuple of \<^verbatim>\<open>get_reverse_key\<close> holds \<^verbatim>\<open>fieldB\<close> as it is, set or not.\<close>

type_synonym reverse_key_type = "string \<times> string \<times> string \<times> string option \<times> string"

definition get_reverse_key :: "foreign_registry \<Rightarrow> error + reverse_key_type" where
  "get_reverse_key self =
     (case flip_mode (mode self) of
        Inl e \<Rightarrow> Inl e
      | Inr fm \<Rightarrow> Inr (fm, modelB self, modelA self, fieldB self, fieldA self))"

definition reverse_mode :: "foreign_registry \<Rightarrow> error + string" where
  "reverse_mode self = flip_mode (mode self)"

subsection \<open>The registry\<close>

text \<open>
  \<^verbatim>\<open>_registry\<close> is a class-level dictionary. It is an association list in insertion
  order: a new key goes to the end, an old key keeps its place (\<open>AList.update\<close>), as
  in a Python \<^verbatim>\<open>dict\<close>. The objects of the dictionary are reached only through it, so
  that an object is the record stored under its key and an assignment to one of its
  attributes is an update of that entry.
\<close>

type_synonym registry = "(key_type \<times> foreign_registry) list"

text \<open>A tuple of \<^verbatim>\<open>get_reverse_key\<close> as a dictionary key: one with \<^verbatim>\<open>None\<close> in it is no key.\<close>

definition as_key :: "reverse_key_type \<Rightarrow> key_type option" where
  "as_key rk =
     (case rk of (m, a, b, f, g) \<Rightarrow>
        (case f of None \<Rightarrow> None | Some f' \<Rightarrow> Some (m, a, b, f', g)))"

definition registry_get :: "registry \<Rightarrow> reverse_key_type \<Rightarrow> foreign_registry option" where
  "registry_get reg rk = (case as_key rk of None \<Rightarrow> None | Some k \<Rightarrow> map_of reg k)"

definition set_reverse_created :: "key_type \<Rightarrow> registry \<Rightarrow> registry" where
  "set_reverse_created k reg =
     (case map_of reg k of
        None \<Rightarrow> reg
      | Some r \<Rightarrow> AList.update k (r\<lparr>reverse_created := True\<rparr>) reg)"

text \<open>
  \<^verbatim>\<open>check_for_reverse\<close>, called on the object stored under \<open>k\<close>. The registry comes
  back also when the call raises: what it assigned before stays assigned.
\<close>

definition check_for_reverse :: "registry \<Rightarrow> key_type \<Rightarrow> foreign_registry \<Rightarrow> registry \<times> (error + foreign_registry)" where
  "check_for_reverse reg k self =
     (case get_reverse_key self of
        Inl e \<Rightarrow> (reg, Inl e)
      | Inr rkey \<Rightarrow>
          (case registry_get reg rkey of
             None \<Rightarrow> (reg, Inr self)
           | Some _ \<Rightarrow>
               (let self' = self\<lparr>reverse_created := True\<rparr>;
                    reg1 = AList.update k self' reg
                in case registry_get reg1 rkey of
                     None \<Rightarrow> (reg1, Inl KeyError)
                   | Some reverse \<Rightarrow>
                       (if reverse_created reverse then
                          (case get_key reverse of
                             Inl e \<Rightarrow> (reg1, Inl e)
                           | Inr rk \<Rightarrow> (reg1, Inl (ValueError (MultipleReverse rk))))
                        else
                          (case as_key rkey of
                             None \<Rightarrow> (reg1, Inl KeyError)
                           | Some rk \<Rightarrow> (set_reverse_created rk reg1, Inr self'))))))"

text \<open>The \<^verbatim>\<open>mode\<close> argument of the constructor, by the three tests made on it.\<close>

datatype mode_arg =
    ModeStr string
  | ModeType py_type
  | ModeRelated string
  | ModeAlias string

definition convert_mode :: "mode_arg \<Rightarrow> error + string" where
  "convert_mode m =
     (case m of
        ModeStr s \<Rightarrow> Inr s
      | ModeType t \<Rightarrow> field_type_to_mode t
      | ModeRelated class_name \<Rightarrow> str_to_mode class_name
      | ModeAlias origin_name \<Rightarrow> str_to_mode origin_name)"

text \<open>
  \<^verbatim>\<open>str.lower\<close> and \<^verbatim>\<open>str.islower\<close> on ASCII text, which is what class and attribute
  names are taken to be.
\<close>

definition lower_char :: "char \<Rightarrow> char" where
  "lower_char c =
     (case map_of (zip ''ABCDEFGHIJKLMNOPQRSTUVWXYZ'' ''abcdefghijklmnopqrstuvwxyz'') c of
        None \<Rightarrow> c
      | Some d \<Rightarrow> d)"

definition lower :: "string \<Rightarrow> string" where
  "lower s = map lower_char s"

definition default_fieldB :: "string \<Rightarrow> string \<Rightarrow> string option \<Rightarrow> string option" where
  "default_fieldB m mA fB =
     (case fB of
        Some f \<Rightarrow> Some f
      | None \<Rightarrow>
          (if m = ONE_TO_ONE then Some (lower mA)
           else if m = ONE_TO_MANY then Some (lower mA @ ''_set'')
           else if m = MANY_TO_ONE then Some (lower mA @ ''_set'')
           else if m = MANY_TO_MANY then Some (lower mA @ ''_set'')
           else None))"

text \<open>The object as the constructor's assignments leave it, before it is registered.\<close>

definition new_record :: "string \<Rightarrow> string \<Rightarrow> string \<Rightarrow> string \<Rightarrow> string option \<Rightarrow> foreign_registry" where
  "new_record m mA mB fA fB =
     \<lparr>mode = m, modelA = mA, modelB = mB, fieldA = fA, fieldB = fB, reverse_created = False\<rparr>"

text \<open>
  \<^verbatim>\<open>ForeignRegistry.__init__\<close>. The result is the registry afterwards with either the
  exception or the object built, in the state the constructor leaves it.
\<close>

definition init :: "registry \<Rightarrow> mode_arg \<Rightarrow> string \<Rightarrow> string \<Rightarrow> string \<Rightarrow> string option \<Rightarrow> registry \<times> (error + foreign_registry)" where
  "init reg mode_in mA mB fA fB =
     (case convert_mode mode_in of
        Inl e \<Rightarrow> (reg, Inl e)
      | Inr m \<Rightarrow>
          (let self = new_record m mA mB fA (default_fieldB m mA fB)
           in case get_key self of
                Inl e \<Rightarrow> (reg, Inl e)
              | Inr k \<Rightarrow> check_for_reverse (AList.update k self reg) k self))"

subsection \<open>Type hints and field objects\<close>

text \<open>
  The objects a type hint can be, as far as the two modules tell them apart. \<open>ManyToOne\<close>
  and \<open>OneToOne\<close> are the instances that \<^verbatim>\<open>ManyToOne[item]\<close> and \<^verbatim>\<open>OneToOne[item]\<close>
  build through \<^verbatim>\<open>HolderBase.__getitem__\<close>; \<open>ManyToMany\<close>, \<open>OneToMany\<close> and
  \<open>GenericManager\<close> are the three manager classes, and \<open>Generic origin args\<close> is a
  generic alias such as \<^verbatim>\<open>ManyToMany[Book]\<close> or \<^verbatim>\<open>list[int]\<close>. A class is given by its
  \<^verbatim>\<open>__name__\<close>: \<open>ModelClass\<close> for a subclass of the framework's \<^verbatim>\<open>Model\<close>, \<open>Class\<close> for
  any other. \<open>UnionType\<close> is \<^verbatim>\<open>X | Y\<close> and \<open>TypingUnion\<close> is \<^verbatim>\<open>Union[X, Y]\<close> or
  \<^verbatim>\<open>Optional[X]\<close>, which alone of the two has \<^verbatim>\<open>__origin__\<close>.
\<close>

datatype field_class =
    ForeignKey
  | OneToOneField
  | ManyToManyField
  | OneToManyFieldStandIn
  | OtherField string

datatype hint =
    Self
  | Str string
  | NoneType
  | AnyType
  | ModelClass string
  | Class string
  | ForwardRef string
  | ManyToMany
  | OneToMany
  | GenericManager
  | SpecialForm string
  | ManyToOne hint
  | OneToOne hint
  | Generic hint "hint list"
  | UnionType "hint list"
  | TypingUnion "hint list"
  | Annotated hint "annotation list"
and kwarg =
    KInt int
  | KStr string
  | KBool bool
  | KTo hint
  | KCascade
and annotation =
    MetaLookup field_class string "(string \<times> kwarg) list"
  | MetaFieldClass field_class
  | MetaDict "(string \<times> kwarg) list"
  | MetaOther

type_synonym kwargs = "(string \<times> kwarg) list"

text \<open>
  A field object is its class and the keyword arguments it was built with. A relation field
  keeps its \<^verbatim>\<open>to\<close> and \<^verbatim>\<open>related_name\<close> arguments in \<^verbatim>\<open>remote_field\<close>: the stand-in does
  so in its constructor, the framework's three classes in theirs. The constructors of the
  three classes admit a model class or a string as target and no other object
  (\<open>construct_field\<close> below), so an object of one of them has such a target; the stand-in
  takes any object.
\<close>

record field_object =
  fo_class :: field_class
  fo_kwargs :: kwargs

definition remote_model :: "field_object \<Rightarrow> kwarg option" where
  "remote_model f = map_of (fo_kwargs f) ''to''"

definition related_name :: "field_object \<Rightarrow> kwarg option" where
  "related_name f = map_of (fo_kwargs f) ''related_name''"

text \<open>
  The four class attributes \<^verbatim>\<open>register_field_object\<close> reads. Those of the stand-in are
  in its class body; those of the framework's classes are the framework's: a foreign key
  is many-to-one, and any other field has none of the four set.
\<close>

definition many_to_many :: "field_class \<Rightarrow> bool" where
  "many_to_many c \<longleftrightarrow> c = ManyToManyField"

definition one_to_one :: "field_class \<Rightarrow> bool" where
  "one_to_one c \<longleftrightarrow> c = OneToOneField"

definition one_to_many :: "field_class \<Rightarrow> bool" where
  "one_to_many c \<longleftrightarrow> c = OneToManyFieldStandIn"

definition many_to_one :: "field_class \<Rightarrow> bool" where
  "many_to_one c \<longleftrightarrow> c = ForeignKey \<or> c = OneToManyFieldStandIn"

text \<open>
  The name \<^verbatim>\<open>register_field_object\<close> registers for a target: the \<^verbatim>\<open>__name__\<close> of a
  class (\<^verbatim>\<open>Any\<close> is one since Python 3.11), a string as it is. Any other target is handed
  to the constructor as the object it is.
\<close>

definition target_name :: "hint \<Rightarrow> string option" where
  "target_name h =
     (case h of
        Str s \<Rightarrow> Some s
      | ModelClass n \<Rightarrow> Some n
      | Class n \<Rightarrow> Some n
      | ManyToMany \<Rightarrow> Some ''ManyToMany''
      | OneToMany \<Rightarrow> Some ''OneToMany''
      | GenericManager \<Rightarrow> Some ''GenericManager''
      | NoneType \<Rightarrow> Some ''NoneType''
      | AnyType \<Rightarrow> Some ''Any''
      | _ \<Rightarrow> None)"

definition model_name_of :: "kwarg \<Rightarrow> string option" where
  "model_name_of v = (case v of KTo h \<Rightarrow> target_name h | KStr s \<Rightarrow> Some s | _ \<Rightarrow> None)"

definition str_of_kwarg :: "kwarg \<Rightarrow> string option" where
  "str_of_kwarg v = (case v of KStr s \<Rightarrow> Some s | KTo (Str s) \<Rightarrow> Some s | _ \<Rightarrow> None)"

definition field_mode :: "field_object \<Rightarrow> error + string" where
  "field_mode f =
     (if many_to_many (fo_class f) then Inr MANY_TO_MANY
      else if one_to_one (fo_class f) then Inr ONE_TO_ONE
      else if one_to_many (fo_class f) then Inr ONE_TO_MANY
      else if many_to_one (fo_class f) then Inr MANY_TO_ONE
      else Inl (ValueError UnknownFieldMode))"

text \<open>
  The two names \<^verbatim>\<open>register_field_object\<close> hands to the constructor besides its own
  arguments, when both are of the declared types.
\<close>

definition field_names :: "field_object \<Rightarrow> kwarg \<Rightarrow> (string \<times> string option) option" where
  "field_names f target =
     (case model_name_of target of
        None \<Rightarrow> None
      | Some mB \<Rightarrow>
          (case related_name f of
             None \<Rightarrow> Some (mB, None)
           | Some rn \<Rightarrow>
               (case str_of_kwarg rn of None \<Rightarrow> None | Some fB \<Rightarrow> Some (mB, Some fB))))"

text \<open>
  The key of a record is hashed when the record is stored. A class, a string and an
  instance of a class of the library hash; an alias or a union hashes when its parts do,
  and an \<^verbatim>\<open>Annotated\<close> hint when its metadata do, which a dictionary does not.
\<close>

definition hashable_annotation :: "annotation \<Rightarrow> bool" where
  "hashable_annotation a = (case a of MetaDict kw \<Rightarrow> False | _ \<Rightarrow> True)"

fun hashable :: "hint \<Rightarrow> bool" where
  "hashable (Generic origin args) = (hashable origin \<and> list_all hashable args)"
| "hashable (UnionType args) = list_all hashable args"
| "hashable (TypingUnion args) = list_all hashable args"
| "hashable (Annotated base metadata) = (hashable base \<and> list_all hashable_annotation metadata)"
| "hashable _ = True"

definition hashable_kwarg :: "kwarg \<Rightarrow> bool" where
  "hashable_kwarg v = (case v of KTo h \<Rightarrow> hashable h | _ \<Rightarrow> True)"

text \<open>
  \<^verbatim>\<open>register_field_object\<close>. The registry of the model holds the records whose names are
  strings, as the constructor declares them. When the target is another object than a
  class or a string, or the related name another object than a string, the constructor
  files the record under a key with that object in it, or raises \<^verbatim>\<open>TypeError\<close> when the
  object does not hash. No key of strings equals a key with such an object or is its
  reverse, so the record is never marked and marks none: the call returns with the records
  of the model as they were, and \<open>None\<close> stands for the unmarked record. Such a record with
  an object for its target is a record of no model name. One with a string for its target
  and an object for its related name is, and it is the one record of the code that the
  registry of the model lacks; \<open>related_name_declared\<close> says of a field object that its
  related name is of the declared type, a string or \<open>None\<close>, and so that there is no such
  record. Every relation class takes \<^verbatim>\<open>to\<close> as a required argument; an object without it
  is the \<^verbatim>\<open>TypeError\<close> of that call.
\<close>

definition related_name_declared :: "field_object \<Rightarrow> bool" where
  "related_name_declared f =
     (case related_name f of None \<Rightarrow> True | Some rn \<Rightarrow> str_of_kwarg rn \<noteq> None)"

definition register_field_object :: "registry \<Rightarrow> string \<Rightarrow> string \<Rightarrow> field_object \<Rightarrow> registry \<times> (error + foreign_registry option)" where
  "register_field_object reg name field_name f =
     (case field_mode f of
        Inl e \<Rightarrow> (reg, Inl e)
      | Inr m \<Rightarrow>
          (case remote_model f of
             None \<Rightarrow> (reg, Inl TypeError)
           | Some target \<Rightarrow>
               (case field_names f target of
                  None \<Rightarrow>
                    if hashable_kwarg target \<and>
                       (case related_name f of None \<Rightarrow> True | Some rn \<Rightarrow> hashable_kwarg rn)
                    then (reg, Inr None)
                    else (reg, Inl TypeError)
                | Some (mB, fB) \<Rightarrow>
                    (case init reg (ModeStr m) name mB field_name fB of
                       (reg', Inl e) \<Rightarrow> (reg', Inl e)
                     | (reg', Inr registered) \<Rightarrow> (reg', Inr (Some registered))))))"

subsection \<open>Registry states a program can reach\<close>

text \<open>
  The registry starts empty and changes only in the constructor. A state is reached by a
  sequence of constructor calls, each with any arguments, whether the call returned or
  raised.
\<close>

type_synonym ctor_call = "mode_arg \<times> string \<times> string \<times> string \<times> string option"

definition construct :: "registry \<Rightarrow> ctor_call \<Rightarrow> registry" where
  "construct reg c = (case c of (m, a, b, f, g) \<Rightarrow> fst (init reg m a b f g))"

definition registry_after :: "ctor_call list \<Rightarrow> registry" where
  "registry_after calls = foldl construct [] calls"

text \<open>
  What holds of every such state: an entry is stored under its own key, and an entry
  marked \<^verbatim>\<open>reverse_created\<close> has its reverse key in the registry.
\<close>

definition registry_ok :: "registry \<Rightarrow> bool" where
  "registry_ok reg \<longleftrightarrow>
     (\<forall>k r. map_of reg k = Some r \<longrightarrow>
        get_key r = Inr k \<and>
        (reverse_created r \<longrightarrow>
           (\<exists>rk. get_reverse_key r = Inr rk \<and> registry_get reg rk \<noteq> None)))"

text \<open>
  The metaclass registers through \<^verbatim>\<open>register_field_object\<close> only: the states reached by
  registering field objects, each call returned or raised.
\<close>

type_synonym field_registration = "string \<times> string \<times> field_object"

definition register_field :: "registry \<Rightarrow> field_registration \<Rightarrow> registry" where
  "register_field reg c = (case c of (name, field_name, f) \<Rightarrow> fst (register_field_object reg name field_name f))"

definition registry_of_fields :: "field_registration list \<Rightarrow> registry" where
  "registry_of_fields fs = foldl register_field [] fs"

definition modes_valid :: "registry \<Rightarrow> bool" where
  "modes_valid reg = list_all (\<lambda>(k, r). valid_mode (mode r)) reg"

section \<open>checks.py: the readiness check\<close>

text \<open>
  \<^verbatim>\<open>check_model_valid\<close>: the comprehension over \<^verbatim>\<open>_registry.values()\<close>, in the order of
  the dictionary.
\<close>

definition check_model_valid :: "registry \<Rightarrow> string \<Rightarrow> foreign_registry list" where
  "check_model_valid reg model =
     [relationship. (k, relationship) \<leftarrow> reg,
        modelB relationship = model \<and> reverse_created relationship = False]"

definition all_relationships_resolved :: "registry \<Rightarrow> foreign_registry list" where
  "all_relationships_resolved reg =
     [relationship. (k, relationship) \<leftarrow> reg, reverse_created relationship = False]"

text \<open>
  An installed model class, by what the check reads of it: \<^verbatim>\<open>__name__\<close>,
  \<^verbatim>\<open>_meta.app_label\<close> and whether it is a subclass of \<^verbatim>\<open>TypedModel\<close>.
\<close>

record installed_model =
  model_name :: string
  app_label :: string
  is_typed_model :: bool

text \<open>A check message of the framework: the text, the hint, the object and the id.\<close>

datatype check_message = Warning (msg_text: string) (msg_hint: string) (msg_obj: string) (msg_id: string)

definition quote :: string where
  "quote = [CHR 0x27]"

definition str_of_optional :: "string option \<Rightarrow> string" where
  "str_of_optional s = (case s of None \<Rightarrow> ''None'' | Some t \<Rightarrow> t)"

text \<open>
  The message for one record. Its hint formats \<^verbatim>\<open>ir.reverse_mode()\<close>, which raises for
  a mode that is none of the four.
\<close>

definition warning_for :: "installed_model \<Rightarrow> foreign_registry \<Rightarrow> error + check_message" where
  "warning_for model ir =
     (case reverse_mode ir of
        Inl e \<Rightarrow> Inl e
      | Inr rm \<Rightarrow>
          Inr (Warning
            (''Missing explicit reverse relationship for this foreign key. Django doesn'' @ quote @
             ''t require this, but it helps with typing.'')
            (''Expecting equivalent in '' @ modelB ir @ '' model of '' @ quote @
             str_of_optional (fieldB ir) @ '': '' @ rm @ ''['' @ modelA ir @ ''] = related('' @ quote @
             fieldA ir @ quote @ '')'' @ quote)
            (app_label model @ ''.'' @ modelA ir @ ''.'' @ fieldA ir)
            ''freeform.W001''))"

text \<open>A loop that appends one result per element and stops at the first exception.\<close>

primrec for_each :: "('a \<Rightarrow> error + 'b) \<Rightarrow> 'a list \<Rightarrow> error + 'b list" where
  "for_each f [] = Inr []"
| "for_each f (x # xs) =
     (case f x of
        Inl e \<Rightarrow> Inl e
      | Inr y \<Rightarrow> (case for_each f xs of Inl e \<Rightarrow> Inl e | Inr ys \<Rightarrow> Inr (y # ys)))"

definition warnings_of_model :: "registry \<Rightarrow> installed_model \<Rightarrow> error + check_message list" where
  "warnings_of_model reg model =
     (if is_typed_model model
      then for_each (warning_for model) (check_model_valid reg (model_name model))
      else Inr [])"

text \<open>
  \<^verbatim>\<open>reverse_foreign_key_warning\<close>. \<open>all_models\<close> is \<^verbatim>\<open>apps.all_models.values()\<close>, each
  element the values of one application's dictionary.
\<close>

definition reverse_foreign_key_warning :: "installed_model list list \<Rightarrow> registry \<Rightarrow> error + check_message list" where
  "reverse_foreign_key_warning all_models reg =
     (case for_each (warnings_of_model reg) (concat all_models) of
        Inl e \<Rightarrow> Inl e
      | Inr errors \<Rightarrow> Inr (concat errors))"

section \<open>models.py: from type hints to fields\<close>

definition fix_self :: "hint \<Rightarrow> hint" where
  "fix_self obj = (if obj = Self \<or> obj = Str ''Self'' then Str ''self'' else obj)"

definition islower :: "char \<Rightarrow> bool" where
  "islower c \<longleftrightarrow> c \<in> set ''abcdefghijklmnopqrstuvwxyz''"

definition is_snake_case :: "string \<Rightarrow> bool" where
  "is_snake_case name = list_all (\<lambda>c. islower c \<or> c = CHR ''_'') name"

record field_lookup =
  field :: field_class
  default_key :: string
  default_kwargs :: kwargs

text \<open>
  The keyword arguments \<^verbatim>\<open>FieldLookup.item\<close> collects. A default counts when it is a
  string that is not empty.
\<close>

definition item_kwargs :: "field_lookup \<Rightarrow> string option \<Rightarrow> bool \<Rightarrow> bool \<Rightarrow> kwargs" where
  "item_kwargs self dflt null blank =
     (let kw0 = default_kwargs self;
          kw1 = (if null then AList.update ''null'' (KBool null) kw0 else kw0);
          kw2 = (if blank then AList.update ''blank'' (KBool blank) kw1 else kw1)
      in case dflt of
           None \<Rightarrow> kw2
         | Some d \<Rightarrow> if d \<noteq> [] then AList.update (default_key self) (KStr d) kw2 else kw2)"

text \<open>
  The constructor of the stand-in takes \<^verbatim>\<open>to\<close>, and \<^verbatim>\<open>related_name\<close>, \<^verbatim>\<open>null\<close> and
  \<^verbatim>\<open>blank\<close> if given; any other keyword, or none for \<^verbatim>\<open>to\<close>, is a \<^verbatim>\<open>TypeError\<close>.
\<close>

definition OneToManyFieldStandIn_init :: "kwargs \<Rightarrow> error + field_object" where
  "OneToManyFieldStandIn_init kw =
     (if map_of kw ''to'' = None \<or>
         list_ex (\<lambda>k. k \<notin> set [''to'', ''related_name'', ''null'', ''blank'']) (map fst kw)
      then Inl TypeError
      else Inr \<lparr>fo_class = OneToManyFieldStandIn, fo_kwargs = kw\<rparr>)"

text \<open>
  \<^verbatim>\<open>self.field(**kwargs)\<close>. The constructors of the framework's classes are not part of
  the library. Its three relation classes take \<^verbatim>\<open>to\<close> as a required argument and raise
  \<^verbatim>\<open>TypeError\<close> when it is neither a model class nor a string. For whatever else a
  constructor checks, \<open>refuses\<close> gives, for a class and keyword arguments, the exception
  it raises, if it raises one.
\<close>

type_synonym framework = "field_class \<Rightarrow> kwargs \<Rightarrow> error option"

definition is_model_or_name :: "kwarg \<Rightarrow> bool" where
  "is_model_or_name v =
     (case v of
        KTo (ModelClass n) \<Rightarrow> True
      | KTo (Str s) \<Rightarrow> True
      | KStr s \<Rightarrow> True
      | _ \<Rightarrow> False)"

definition construct_field :: "framework \<Rightarrow> field_class \<Rightarrow> kwargs \<Rightarrow> error + field_object" where
  "construct_field refuses c kw =
     (if c = OneToManyFieldStandIn then OneToManyFieldStandIn_init kw
      else if (c = ForeignKey \<or> c = OneToOneField \<or> c = ManyToManyField) \<and>
              (case map_of kw ''to'' of None \<Rightarrow> True | Some v \<Rightarrow> \<not> is_model_or_name v)
      then Inl TypeError
      else case refuses c kw of
             Some e \<Rightarrow> Inl e
           | None \<Rightarrow> Inr \<lparr>fo_class = c, fo_kwargs = kw\<rparr>)"

text \<open>\<^verbatim>\<open>FieldLookup.item\<close>: the keyword arguments, then the call of the field class.\<close>

definition item :: "framework \<Rightarrow> field_lookup \<Rightarrow> string option \<Rightarrow> bool \<Rightarrow> bool \<Rightarrow> error + field_object" where
  "item refuses self dflt null blank =
     construct_field refuses (field self) (item_kwargs self dflt null blank)"

text \<open>The table \<^verbatim>\<open>types_to_fields\<close>, the registry of lookups as the module leaves it.\<close>

definition FieldLookup :: "field_class \<Rightarrow> kwargs \<Rightarrow> field_lookup" where
  "FieldLookup f kw = \<lparr>field = f, default_key = ''default'', default_kwargs = kw\<rparr>"

definition types_to_fields :: "(hint \<times> field_lookup) list" where
  "types_to_fields =
     [(Class ''str'', FieldLookup (OtherField ''CharField'') [(''max_length'', KInt 255)]),
      (Class ''int'', FieldLookup (OtherField ''IntegerField'') []),
      (Class ''float'', FieldLookup (OtherField ''FloatField'') []),
      (Class ''bool'', FieldLookup (OtherField ''BooleanField'') []),
      (Class ''datetime'', FieldLookup (OtherField ''DateTimeField'') []),
      (Class ''date'', FieldLookup (OtherField ''DateField'') []),
      (Class ''time'', FieldLookup (OtherField ''TimeField'') []),
      (Class ''timedelta'', FieldLookup (OtherField ''DurationField'') []),
      (Class ''Decimal'', FieldLookup (OtherField ''DecimalField'')
         [(''max_digits'', KInt 10), (''decimal_places'', KInt 2)]),
      (Class ''list'', FieldLookup (OtherField ''JSONField'') []),
      (Class ''dict'', FieldLookup (OtherField ''JSONField'') []),
      (Class ''bytes'', FieldLookup (OtherField ''BinaryField'') [])]"

definition register :: "(hint \<times> field_lookup) list \<Rightarrow> hint \<Rightarrow> field_lookup \<Rightarrow> (hint \<times> field_lookup) list" where
  "register lookup_registry field_type f = AList.update field_type f lookup_registry"

text \<open>\<^verbatim>\<open>typing.get_origin\<close> and \<^verbatim>\<open>hasattr(_, "__origin__")\<close> on the hints of the model.\<close>

definition get_origin :: "hint \<Rightarrow> hint option" where
  "get_origin h =
     (case h of
        Generic origin args \<Rightarrow> Some origin
      | TypingUnion args \<Rightarrow> Some (SpecialForm ''Union'')
      | UnionType args \<Rightarrow> Some (Class ''UnionType'')
      | Annotated base metadata \<Rightarrow> Some (SpecialForm ''Annotated'')
      | _ \<Rightarrow> None)"

definition has_origin :: "hint \<Rightarrow> bool" where
  "has_origin h =
     (case h of
        Generic origin args \<Rightarrow> True
      | TypingUnion args \<Rightarrow> True
      | Annotated base metadata \<Rightarrow> True
      | _ \<Rightarrow> False)"

definition has_metadata :: "hint \<Rightarrow> bool" where
  "has_metadata h = (case h of Annotated base metadata \<Rightarrow> True | _ \<Rightarrow> False)"

definition get_args :: "hint \<Rightarrow> hint list" where
  "get_args h =
     (case h of
        Generic origin args \<Rightarrow> args
      | TypingUnion args \<Rightarrow> args
      | UnionType args \<Rightarrow> args
      | Annotated base metadata \<Rightarrow> [base]
      | _ \<Rightarrow> [])"

text \<open>\<^verbatim>\<open>get_specialisation_name_or_type\<close>; \<^verbatim>\<open>get_args(alias)[0]\<close> raises on no argument.\<close>

definition get_specialisation_name_or_type :: "hint \<Rightarrow> error + hint" where
  "get_specialisation_name_or_type alias =
     (case get_args alias of
        [] \<Rightarrow> Inl IndexError
      | first_arg # _ \<Rightarrow>
          (case first_arg of ForwardRef n \<Rightarrow> Inr (Str n) | _ \<Rightarrow> Inr first_arg))"

definition is_model_or_str :: "hint \<Rightarrow> bool" where
  "is_model_or_str h = (case h of ModelClass n \<Rightarrow> True | Str s \<Rightarrow> True | _ \<Rightarrow> False)"

text \<open>
  \<^verbatim>\<open>FieldLookup(metadata[0], **metadata[1])\<close>: a key \<^verbatim>\<open>default_key\<close> of the dictionary is
  the parameter of that name, a key \<^verbatim>\<open>field\<close> is a second value for the first parameter,
  which is a \<^verbatim>\<open>TypeError\<close>. A \<^verbatim>\<open>default_key\<close> that is no string is outside the model and
  ends there too.
\<close>

definition FieldLookup_of_dict :: "field_class \<Rightarrow> kwargs \<Rightarrow> error + field_lookup" where
  "FieldLookup_of_dict f kw =
     (if map_of kw ''field'' \<noteq> None then Inl TypeError
      else case map_of kw ''default_key'' of
             None \<Rightarrow> Inr (FieldLookup f kw)
           | Some (KStr k) \<Rightarrow>
               Inr \<lparr>field = f, default_key = k, default_kwargs = AList.delete ''default_key'' kw\<rparr>
           | Some _ \<Rightarrow> Inl TypeError)"

text \<open>
  The metadata of an \<^verbatim>\<open>Annotated\<close> hint: a lookup alone, or a subclass of the framework's
  \<^verbatim>\<open>Field\<close> and a dictionary. The stand-in is a class but no such subclass.
\<close>

definition lookup_of_metadata :: "annotation list \<Rightarrow> error + field_lookup option" where
  "lookup_of_metadata metadata =
     (case metadata of
        [MetaLookup f k kw] \<Rightarrow> Inr (Some \<lparr>field = f, default_key = k, default_kwargs = kw\<rparr>)
      | [MetaFieldClass f, MetaDict kw] \<Rightarrow>
          if f = OneToManyFieldStandIn then Inl (ValueError InvalidMetadata)
          else (case FieldLookup_of_dict f kw of Inl e \<Rightarrow> Inl e | Inr l \<Rightarrow> Inr (Some l))
      | _ \<Rightarrow> Inl (ValueError InvalidMetadata))"

definition get_metadata :: "hint \<Rightarrow> annotation list" where
  "get_metadata h = (case h of Annotated base metadata \<Rightarrow> metadata | _ \<Rightarrow> [])"

text \<open>The last part of \<^verbatim>\<open>get_django_lookup\<close>, after the relationship shapes.\<close>

definition plain_lookup :: "(hint \<times> field_lookup) list \<Rightarrow> hint \<Rightarrow> error + field_lookup option" where
  "plain_lookup lookup_registry field_type =
     (let is_generic_alias = has_origin field_type;
          is_annotated_type = has_metadata field_type
      in case (if is_generic_alias \<and> \<not> is_annotated_type
               then (case get_origin field_type of
                       None \<Rightarrow> Inl (ValueError NoOrigin)
                     | Some origin \<Rightarrow> Inr origin)
               else Inr field_type) of
           Inl e \<Rightarrow> Inl e
         | Inr field_type' \<Rightarrow>
             if is_annotated_type then lookup_of_metadata (get_metadata field_type)
             else Inr (map_of lookup_registry field_type'))"

definition get_django_lookup :: "(hint \<times> field_lookup) list \<Rightarrow> hint \<Rightarrow> error + field_lookup option" where
  "get_django_lookup lookup_registry field_type0 =
     (let field_type1 = fix_self field_type0;
          field_type = (if is_model_or_str field_type1 then ManyToOne field_type1 else field_type1);
          is_generic_alias = has_origin field_type
      in case field_type of
           ManyToOne it \<Rightarrow>
             Inr (Some \<lparr>field = ForeignKey, default_key = ''related_name'',
                         default_kwargs = [(''on_delete'', KCascade), (''to'', KTo (fix_self it))]\<rparr>)
         | OneToOne it \<Rightarrow>
             Inr (Some \<lparr>field = OneToOneField, default_key = ''related_name'',
                         default_kwargs = [(''to'', KTo (fix_self it)), (''on_delete'', KCascade)]\<rparr>)
         | _ \<Rightarrow>
             if is_generic_alias \<and> get_origin field_type = Some ManyToMany then
               (case get_specialisation_name_or_type field_type of
                  Inl e \<Rightarrow> Inl e
                | Inr related_model \<Rightarrow>
                    Inr (Some \<lparr>field = ManyToManyField, default_key = ''related_name'',
                                default_kwargs = [(''to'', KTo (fix_self related_model))]\<rparr>))
             else if is_generic_alias \<and> get_origin field_type = Some OneToMany then
               (case get_specialisation_name_or_type field_type of
                  Inl e \<Rightarrow> Inl e
                | Inr related_model \<Rightarrow>
                    Inr (Some \<lparr>field = OneToManyFieldStandIn, default_key = ''related_name'',
                                default_kwargs = [(''to'', KTo (fix_self related_model))]\<rparr>))
             else if field_type = Generic GenericManager [AnyType] then Inl NotImplementedError
             else plain_lookup lookup_registry field_type)"

subsection \<open>The metaclass\<close>

text \<open>
  A value of the class dictionary, by the tests \<^verbatim>\<open>__new__\<close> makes on it: a string, a
  field object, the \<^verbatim>\<open>Meta\<close> class built from the class keywords, \<^verbatim>\<open>None\<close>, or any
  other object, of which only the truth value is read.
\<close>

datatype dict_value =
    VNone
  | VStr string
  | VField field_object
  | VMeta kwargs
  | VOther bool

type_synonym class_dict = "(string \<times> dict_value) list"

definition dict_get :: "class_dict \<Rightarrow> string \<Rightarrow> dict_value" where
  "dict_get dct variable = (case map_of dct variable of None \<Rightarrow> VNone | Some v \<Rightarrow> v)"

definition truthy :: "dict_value \<Rightarrow> bool" where
  "truthy v =
     (case v of
        VNone \<Rightarrow> False
      | VStr s \<Rightarrow> s \<noteq> []
      | VField f \<Rightarrow> True
      | VMeta kw \<Rightarrow> True
      | VOther b \<Rightarrow> b)"

text \<open>
  The framework's class tests: its foreign key and one-to-one field are foreign objects,
  its many-to-many field is not; \<open>OtherField\<close> stands for a field class that is none of
  the four relation classes nor a subclass of one.
\<close>

definition is_ForeignObject :: "field_class \<Rightarrow> bool" where
  "is_ForeignObject c \<longleftrightarrow> c = ForeignKey \<or> c = OneToOneField"

definition is_relation :: "field_class \<Rightarrow> bool" where
  "is_relation c \<longleftrightarrow>
     c = OneToManyFieldStandIn \<or> c = ForeignKey \<or> c = ManyToManyField \<or> c = OneToOneField"

text \<open>The union part of the loop body: the hint to look up and the \<^verbatim>\<open>null\<close> flag.\<close>

definition is_union :: "hint \<Rightarrow> bool" where
  "is_union h = (case h of UnionType args \<Rightarrow> True | TypingUnion args \<Rightarrow> True | _ \<Rightarrow> False)"

definition strip_union :: "hint \<Rightarrow> error + hint \<times> bool" where
  "strip_union field_type =
     (if is_union field_type then
        (let field_args = get_args field_type;
             null = list_ex (\<lambda>x. x = NoneType) field_args;
             non_null = filter (\<lambda>x. x \<noteq> NoneType) field_args
         in case non_null of
              [t] \<Rightarrow> Inr (t, null)
            | _ \<Rightarrow> Inl (ValueError UnionNotDetermined))
      else Inr (field_type, False))"

text \<open>
  One round of the loop over the annotations, for the class \<open>name\<close>. The field object is
  an instance, never the class \<^verbatim>\<open>OneToManyFieldStandIn\<close> itself, so the test
  \<^verbatim>\<open>field_object is OneToManyFieldStandIn\<close> fails and the stand-in stays in the dictionary.
  Assigning \<^verbatim>\<open>_Nullify\<close> and deleting the key leaves the key out.
\<close>

definition new_step :: "(hint \<times> field_lookup) list \<Rightarrow> framework \<Rightarrow> string \<Rightarrow> string \<Rightarrow> hint \<Rightarrow> class_dict \<Rightarrow> registry \<Rightarrow> registry \<times> (error + class_dict)" where
  "new_step lookup_registry refuses name variable field_type0 dct reg =
     (if \<not> is_snake_case variable then (reg, Inr dct)
      else
        (let default_or_value = dict_get dct variable in
         case default_or_value of
           VField f \<Rightarrow>
             if is_ForeignObject (fo_class f) then
               (case register_field_object reg name variable f of
                  (reg', Inl e) \<Rightarrow> (reg', Inl e)
                | (reg', Inr registered) \<Rightarrow> (reg', Inr dct))
             else (reg, Inr dct)
         | _ \<Rightarrow>
             if (case default_or_value of VStr s \<Rightarrow> False | _ \<Rightarrow> truthy default_or_value)
             then (reg, Inr dct)
             else
               (let dflt = (case default_or_value of VStr s \<Rightarrow> Some s | _ \<Rightarrow> None) in
                case strip_union field_type0 of
                  Inl e \<Rightarrow> (reg, Inl e)
                | Inr (field_type, null) \<Rightarrow>
                    (case get_django_lookup lookup_registry field_type of
                       Inl e \<Rightarrow> (reg, Inl e)
                     | Inr None \<Rightarrow> (reg, Inl (ValueError (NoDefaultField variable)))
                     | Inr (Some field_instance) \<Rightarrow>
                         (case item refuses field_instance dflt null False of
                            Inl e \<Rightarrow> (reg, Inl e)
                          | Inr field_object \<Rightarrow>
                              if is_relation (fo_class field_object) then
                                (case register_field_object reg name variable field_object of
                                   (reg', Inl e) \<Rightarrow> (reg', Inl e)
                                 | (reg', Inr registered) \<Rightarrow>
                                     if (fo_class field_object = ManyToManyField \<or>
                                         fo_class field_object = OneToOneField) \<and>
                                        (case registered of
                                           None \<Rightarrow> False
                                         | Some r \<Rightarrow> reverse_created r)
                                     then (reg', Inr (AList.delete variable dct))
                                     else (reg', Inr (AList.update variable (VField field_object) dct)))
                              else (reg, Inr (AList.update variable (VField field_object) dct)))))))"

text \<open>The loop: the annotations in order, stopping at the first exception.\<close>

fun new_loop :: "(hint \<times> field_lookup) list \<Rightarrow> framework \<Rightarrow> string \<Rightarrow> (string \<times> hint) list \<Rightarrow> class_dict \<Rightarrow> registry \<Rightarrow> registry \<times> (error + class_dict)" where
  "new_loop lookup_registry refuses name [] dct reg = (reg, Inr dct)"
| "new_loop lookup_registry refuses name ((variable, field_type) # rest) dct reg =
     (case new_step lookup_registry refuses name variable field_type dct reg of
        (reg', Inl e) \<Rightarrow> (reg', Inl e)
      | (reg', Inr dct') \<Rightarrow> new_loop lookup_registry refuses name rest dct' reg')"

text \<open>
  \<^verbatim>\<open>TypedModelBase.__new__\<close>, up to the call of the framework's own \<^verbatim>\<open>__new__\<close>: the
  annotations are those of the class body, evaluated; the result is the class dictionary
  handed on.
\<close>

definition TypedModelBase_new :: "(hint \<times> field_lookup) list \<Rightarrow> framework \<Rightarrow> string \<Rightarrow> (string \<times> hint) list \<Rightarrow> class_dict \<Rightarrow> kwargs \<Rightarrow> registry \<Rightarrow> registry \<times> (error + class_dict)" where
  "TypedModelBase_new lookup_registry refuses name annotations dct kw reg =
     (case new_loop lookup_registry refuses name annotations dct reg of
        (reg', Inl e) \<Rightarrow> (reg', Inl e)
      | (reg', Inr dct') \<Rightarrow>
          (reg', Inr (if kw \<noteq> [] then AList.update ''Meta'' (VMeta kw) dct' else dct')))"

section \<open>Properties of the registry\<close>

lemmas mode_defs = ONE_TO_ONE_def ONE_TO_MANY_def MANY_TO_ONE_def MANY_TO_MANY_def

lemma flip_mode_valid: "valid_mode m \<Longrightarrow> \<exists>m'. flip_mode m = Inr m' \<and> valid_mode m' \<and> flip_mode m' = Inr m"
  by (auto simp: valid_mode_def flip_mode_def mode_defs)

lemma flip_mode_Inr: "flip_mode m = Inr m' \<Longrightarrow> valid_mode m \<and> valid_mode m' \<and> flip_mode m' = Inr m"
  by (auto simp: valid_mode_def flip_mode_def mode_defs split: if_splits)

subsection \<open>The constructor, case by case\<close>

lemma map_of_set_reverse_created:
  "map_of (set_reverse_created k reg) k' =
     (if k' = k then map_option (\<lambda>r. r\<lparr>reverse_created := True\<rparr>) (map_of reg k) else map_of reg k')"
  by (simp add: set_reverse_created_def update_conv' split: option.splits)

lemma check_for_reverse_absent:
  assumes "get_reverse_key self = Inr rkey" "as_key rkey = Some rk" "map_of reg rk = None"
  shows "check_for_reverse reg k self = (reg, Inr self)"
  using assms by (simp add: check_for_reverse_def registry_get_def)

lemma check_for_reverse_unmarked:
  assumes "get_reverse_key self = Inr rkey" "as_key rkey = Some rk" "map_of reg rk = Some rv"
    and "rk \<noteq> k" "\<not> reverse_created rv"
  shows "check_for_reverse reg k self =
     (AList.update rk (rv\<lparr>reverse_created := True\<rparr>)
        (AList.update k (self\<lparr>reverse_created := True\<rparr>) reg),
      Inr (self\<lparr>reverse_created := True\<rparr>))"
  using assms
  by (simp add: check_for_reverse_def registry_get_def Let_def update_conv' set_reverse_created_def)

lemma check_for_reverse_marked:
  assumes "get_reverse_key self = Inr rkey" "as_key rkey = Some rk" "map_of reg rk = Some rv"
    and "rk \<noteq> k" "reverse_created rv" "get_key rv = Inr rk"
  shows "check_for_reverse reg k self =
     (AList.update k (self\<lparr>reverse_created := True\<rparr>) reg, Inl (ValueError (MultipleReverse rk)))"
  using assms
  by (simp add: check_for_reverse_def registry_get_def Let_def update_conv')

lemma check_for_reverse_self:
  assumes "get_reverse_key self = Inr rkey" "as_key rkey = Some k" "map_of reg k = Some x"
    and "get_key self = Inr k"
  shows "check_for_reverse reg k self =
     (AList.update k (self\<lparr>reverse_created := True\<rparr>) reg, Inl (ValueError (MultipleReverse k)))"
  using assms
  by (simp add: check_for_reverse_def registry_get_def Let_def update_conv' get_key_def
      split: option.splits)

lemma init_no_mode:
  "convert_mode mode_in = Inl e \<Longrightarrow> init reg mode_in mA mB fA fB = (reg, Inl e)"
  by (simp add: init_def)

lemma init_no_fieldB:
  "convert_mode mode_in = Inr m \<Longrightarrow> default_fieldB m mA fB = None \<Longrightarrow>
   init reg mode_in mA mB fA fB = (reg, Inl RecursionError)"
  by (simp add: init_def get_key_def new_record_def Let_def)

lemma init_stored:
  "convert_mode mode_in = Inr m \<Longrightarrow> default_fieldB m mA fB = Some fb \<Longrightarrow>
   init reg mode_in mA mB fA fB =
     check_for_reverse (AList.update (m, mA, mB, fA, fb) (new_record m mA mB fA (Some fb)) reg)
       (m, mA, mB, fA, fb) (new_record m mA mB fA (Some fb))"
  by (simp add: init_def get_key_def new_record_def Let_def)

lemma init_no_flip:
  "convert_mode mode_in = Inr m \<Longrightarrow> default_fieldB m mA fB = Some fb \<Longrightarrow> flip_mode m = Inl e \<Longrightarrow>
   init reg mode_in mA mB fA fB =
     (AList.update (m, mA, mB, fA, fb) (new_record m mA mB fA (Some fb)) reg, Inl e)"
  by (simp add: init_stored check_for_reverse_def get_reverse_key_def new_record_def)

lemma new_record_keys:
  "get_key (new_record m mA mB fA (Some fb)) = Inr (m, mA, mB, fA, fb)"
  "get_key (new_record m mA mB fA (Some fb)\<lparr>reverse_created := b\<rparr>) = Inr (m, mA, mB, fA, fb)"
  "flip_mode m = Inr fm \<Longrightarrow> get_reverse_key (new_record m mA mB fA (Some fb)) = Inr (fm, mB, mA, Some fb, fA)"
  "flip_mode m = Inr fm \<Longrightarrow> get_reverse_key (new_record m mA mB fA (Some fb)\<lparr>reverse_created := b\<rparr>) = Inr (fm, mB, mA, Some fb, fA)"
  "as_key (fm, mB, mA, Some fb, fA) = Some (fm, mB, mA, fb, fA)"
  by (simp_all add: new_record_def get_key_def get_reverse_key_def as_key_def)


lemma registry_okI:
  assumes "\<And>k r. map_of reg k = Some r \<Longrightarrow> get_key r = Inr k"
    and "\<And>k r. map_of reg k = Some r \<Longrightarrow> reverse_created r \<Longrightarrow>
           \<exists>rk. get_reverse_key r = Inr rk \<and> registry_get reg rk \<noteq> None"
  shows "registry_ok reg"
  using assms unfolding registry_ok_def by blast

lemma registry_ok_key: "registry_ok reg \<Longrightarrow> map_of reg k = Some r \<Longrightarrow> get_key r = Inr k"
  unfolding registry_ok_def by blast

lemma registry_ok_reverse:
  "registry_ok reg \<Longrightarrow> map_of reg k = Some r \<Longrightarrow> reverse_created r \<Longrightarrow>
     \<exists>rk. get_reverse_key r = Inr rk \<and> registry_get reg rk \<noteq> None"
  unfolding registry_ok_def by blast

lemma registry_get_update:
  "registry_get reg rk \<noteq> None \<Longrightarrow> registry_get (AList.update k r reg) rk \<noteq> None"
  by (auto simp: registry_get_def update_conv' split: option.splits)

lemma get_key_mark [simp]: "get_key (r\<lparr>reverse_created := b\<rparr>) = get_key r"
  by (simp add: get_key_def split: option.splits)

lemma get_reverse_key_mark [simp]: "get_reverse_key (r\<lparr>reverse_created := b\<rparr>) = get_reverse_key r"
  by (simp add: get_reverse_key_def split: sum.splits)

text \<open>Storing an unmarked record under its key keeps the registry in order.\<close>

lemma registry_ok_insert:
  assumes "registry_ok reg" "get_key r = Inr k"
    and "reverse_created r \<Longrightarrow> \<exists>rk. get_reverse_key r = Inr rk \<and> registry_get (AList.update k r reg) rk \<noteq> None"
  shows "registry_ok (AList.update k r reg)"
proof (rule registry_okI)
  fix k' r' assume s: "map_of (AList.update k r reg) k' = Some r'"
  show "get_key r' = Inr k'"
    using s assms(1,2) by (auto simp: update_conv' dest: registry_ok_key split: if_splits)
  assume m: "reverse_created r'"
  show "\<exists>rk. get_reverse_key r' = Inr rk \<and> registry_get (AList.update k r reg) rk \<noteq> None"
  proof (cases "k' = k")
    case True
    then show ?thesis using s m assms(3) by (simp add: update_conv')
  next
    case False
    then have "map_of reg k' = Some r'" using s by (simp add: update_conv')
    then obtain rk where "get_reverse_key r' = Inr rk" "registry_get reg rk \<noteq> None"
      using registry_ok_reverse[OF assms(1) _ m] by blast
    then show ?thesis using registry_get_update by blast
  qed
qed

lemma registry_get_present:
  "as_key rkey = Some rk \<Longrightarrow> map_of reg rk = Some rv \<Longrightarrow>
   registry_get (AList.update k r reg) rkey \<noteq> None"
  by (simp add: registry_get_def update_conv')

lemma registry_get_stored:
  "as_key rkey = Some k \<Longrightarrow> registry_get (AList.update k r reg) rkey \<noteq> None"
  by (simp add: registry_get_def update_conv')

text \<open>The reverse of a record stored under the reverse key points back.\<close>

lemma reverse_of_reverse:
  assumes "get_key self = Inr k" "get_reverse_key self = Inr rkey" "as_key rkey = Some rk"
    and "get_key rv = Inr rk"
  shows "\<exists>rkey'. get_reverse_key rv = Inr rkey' \<and> as_key rkey' = Some k"
proof -
  from assms(2) obtain fm where fm: "flip_mode (mode self) = Inr fm"
    by (auto simp: get_reverse_key_def split: sum.splits)
  then have fl: "flip_mode fm = Inr (mode self)" using flip_mode_Inr by blast
  from assms(1) obtain fb where fb: "fieldB self = Some fb"
    by (auto simp: get_key_def split: option.splits)
  have "rk = (fm, modelB self, modelA self, fb, fieldA self)"
    using assms(2,3) fm fb by (auto simp: get_reverse_key_def as_key_def)
  then have "mode rv = fm" "modelA rv = modelB self" "modelB rv = modelA self"
    "fieldA rv = fb" "fieldB rv = Some (fieldA self)"
    using assms(4) by (auto simp: get_key_def split: option.splits)
  then show ?thesis using fl fb assms(1) by (simp add: get_reverse_key_def as_key_def get_key_def)
qed

text \<open>\<^verbatim>\<open>check_for_reverse\<close> on a record just stored under its key.\<close>

lemma registry_ok_check_for_reverse:
  assumes ok: "registry_ok reg" and st: "map_of reg k = Some self" and nr: "\<not> reverse_created self"
  shows "registry_ok (fst (check_for_reverse reg k self))"
proof (cases "get_reverse_key self")
  case (Inl e)
  then show ?thesis using ok by (simp add: check_for_reverse_def)
next
  case (Inr rkey)
  have gk: "get_key self = Inr k" using ok st by (rule registry_ok_key)
  show ?thesis
  proof (cases "registry_get reg rkey")
    case None
    then show ?thesis using ok Inr by (simp add: check_for_reverse_def)
  next
    case (Some rv)
    then obtain rk where ak: "as_key rkey = Some rk" and mrk: "map_of reg rk = Some rv"
      by (auto simp: registry_get_def split: option.splits)
    let ?self' = "self\<lparr>reverse_created := True\<rparr>"
    let ?reg1 = "AList.update k ?self' reg"
    have "registry_get ?reg1 rkey \<noteq> None" using ak mrk by (rule registry_get_present)
    then have ok1: "registry_ok ?reg1"
      using Inr by (intro registry_ok_insert[OF ok]) (simp_all add: gk)
    show ?thesis
    proof (cases "rk = k")
      case True
      have "check_for_reverse reg k self = (?reg1, Inl (ValueError (MultipleReverse k)))"
        using Inr ak mrk gk unfolding True by (rule check_for_reverse_self)
      then show ?thesis using ok1 by simp
    next
      case False
      have krv: "get_key rv = Inr rk" using ok mrk by (rule registry_ok_key)
      show ?thesis
      proof (cases "reverse_created rv")
        case True
        have "check_for_reverse reg k self = (?reg1, Inl (ValueError (MultipleReverse rk)))"
          using Inr ak mrk False True krv by (rule check_for_reverse_marked)
        then show ?thesis using ok1 by simp
      next
        case F: False
        let ?reg2 = "AList.update rk (rv\<lparr>reverse_created := True\<rparr>) ?reg1"
        have c: "check_for_reverse reg k self = (?reg2, Inr ?self')"
          using Inr ak mrk False F by (rule check_for_reverse_unmarked)
        obtain rkey' where r': "get_reverse_key rv = Inr rkey'" "as_key rkey' = Some k"
          using reverse_of_reverse[OF gk Inr ak krv] by blast
        have "registry_get ?reg2 rkey' \<noteq> None"
          using r'(2) by (simp add: registry_get_def update_conv')
        then have "registry_ok ?reg2"
          using r'(1) by (intro registry_ok_insert[OF ok1]) (simp_all add: krv)
        then show ?thesis using c by simp
      qed
    qed
  qed
qed

lemma registry_ok_init:
  assumes ok: "registry_ok reg"
  shows "registry_ok (fst (init reg mode_in mA mB fA fB))"
proof (cases "convert_mode mode_in")
  case (Inl e)
  then show ?thesis using ok by (simp add: init_no_mode)
next
  case (Inr m)
  show ?thesis
  proof (cases "default_fieldB m mA fB")
    case None
    then show ?thesis using ok Inr by (simp add: init_no_fieldB)
  next
    case (Some fb)
    define k where "k = (m, mA, mB, fA, fb)"
    define self where "self = new_record m mA mB fA (Some fb)"
    have gk: "get_key self = Inr k" unfolding k_def self_def by (rule new_record_keys)
    have nr: "\<not> reverse_created self" by (simp add: self_def new_record_def)
    have ok0: "registry_ok (AList.update k self reg)"
      using nr by (intro registry_ok_insert[OF ok]) (simp_all add: gk)
    have "init reg mode_in mA mB fA fB = check_for_reverse (AList.update k self reg) k self"
      unfolding k_def self_def using Inr Some by (rule init_stored)
    moreover have "map_of (AList.update k self reg) k = Some self" by (simp add: update_conv')
    ultimately show ?thesis using registry_ok_check_for_reverse[OF ok0 _ nr] by simp
  qed
qed

lemma registry_ok_foldl: "registry_ok reg \<Longrightarrow> registry_ok (foldl construct reg calls)"
  by (induction calls arbitrary: reg) (auto simp: construct_def registry_ok_init split: prod.splits)

lemma registry_ok_after: "registry_ok (registry_after calls)"
  unfolding registry_after_def by (rule registry_ok_foldl) (simp add: registry_ok_def)


lemma check_for_reverse_stored:
  assumes "map_of reg k = Some self" "check_for_reverse reg k self = (reg', res)"
  shows "\<exists>b. map_of reg' k = Some (self\<lparr>reverse_created := b\<rparr>) \<and>
             (\<forall>r. res = Inr r \<longrightarrow> r = self\<lparr>reverse_created := b\<rparr>)"
proof (cases "\<exists>rkey. get_reverse_key self = Inr rkey \<and> registry_get reg rkey \<noteq> None")
  case False
  then have "reg' = reg" "res = Inr self \<or> (\<exists>e. res = Inl e)"
    using assms(2) by (auto simp: check_for_reverse_def split: sum.splits option.splits)
  then show ?thesis using assms(1) by (intro exI[of _ "reverse_created self"]) auto
next
  case True
  let ?self' = "self\<lparr>reverse_created := True\<rparr>"
  have "map_of reg' k = Some ?self' \<and> (res = Inr ?self' \<or> (\<exists>e. res = Inl e))"
    using True assms(2)
    by (auto simp: check_for_reverse_def Let_def update_conv' map_of_set_reverse_created
        split: sum.splits option.splits if_splits)
  then show ?thesis by (intro exI[of _ True]) auto
qed

lemma check_for_reverse_others:
  assumes "k0 \<noteq> k" "map_of reg k0 = Some r0"
  shows "\<exists>r1. map_of (fst (check_for_reverse reg k self)) k0 = Some r1 \<and>
              (reverse_created r0 \<longrightarrow> reverse_created r1)"
  using assms
  by (auto simp: check_for_reverse_def Let_def update_conv' map_of_set_reverse_created
      split: sum.splits option.splits if_splits)

lemma check_for_reverse_marks_self:
  assumes "get_reverse_key self = Inr rkey" "registry_get reg rkey \<noteq> None"
  shows "\<exists>r1. map_of (fst (check_for_reverse reg k self)) k = Some r1 \<and> reverse_created r1"
  using assms
  by (auto simp: check_for_reverse_def Let_def update_conv' map_of_set_reverse_created
      split: sum.splits option.splits if_splits)

lemma same_key_same_reverse:
  "get_key r = Inr k \<Longrightarrow> get_key r' = Inr k \<Longrightarrow> get_reverse_key r' = get_reverse_key r"
  by (auto simp: get_key_def get_reverse_key_def split: option.splits sum.splits)

lemma init_keeps_marks:
  assumes ok: "registry_ok reg" and st: "map_of reg k0 = Some r0" and mk: "reverse_created r0"
  shows "\<exists>r1. map_of (fst (init reg mode_in mA mB fA fB)) k0 = Some r1 \<and> reverse_created r1"
proof (cases "convert_mode mode_in")
  case (Inl e)
  then show ?thesis using st mk by (simp add: init_no_mode)
next
  case (Inr m)
  show ?thesis
  proof (cases "default_fieldB m mA fB")
    case None
    then show ?thesis using st mk Inr by (simp add: init_no_fieldB)
  next
    case (Some fb)
    define k where "k = (m, mA, mB, fA, fb)"
    define self where "self = new_record m mA mB fA (Some fb)"
    have gk: "get_key self = Inr k" unfolding k_def self_def by (rule new_record_keys)
    have i: "init reg mode_in mA mB fA fB = check_for_reverse (AList.update k self reg) k self"
      unfolding k_def self_def using Inr Some by (rule init_stored)
    show ?thesis
    proof (cases "k0 = k")
      case False
      then have "map_of (AList.update k self reg) k0 = Some r0" using st by (simp add: update_conv')
      from check_for_reverse_others[OF False this, of self] show ?thesis
        using mk unfolding i by blast
    next
      case True
      have "get_key r0 = Inr k" using ok st unfolding True by (rule registry_ok_key)
      then have same: "get_reverse_key self = get_reverse_key r0" using gk by (rule same_key_same_reverse)
      obtain rkey where rk: "get_reverse_key r0 = Inr rkey" "registry_get reg rkey \<noteq> None"
        using registry_ok_reverse[OF ok st mk] by blast
      have "registry_get (AList.update k self reg) rkey \<noteq> None"
        using rk(2) by (rule registry_get_update)
      from check_for_reverse_marks_self[OF _ this, of self k] show ?thesis
        using same rk(1) unfolding i True by simp
    qed
  qed
qed

lemma check_for_reverse_success:
  assumes "map_of reg k = Some self" "\<not> reverse_created self"
    and "check_for_reverse reg k self = (reg', Inr r)"
    and "get_reverse_key self = Inr rkey" "registry_get reg rkey = Some rv"
  shows "as_key rkey \<noteq> Some k \<and> \<not> reverse_created rv \<and> reverse_created r \<and>
         (\<exists>rv'. registry_get reg' rkey = Some rv' \<and> reverse_created rv')"
  using assms
  by (auto simp: check_for_reverse_def Let_def update_conv' map_of_set_reverse_created
      registry_get_def split: sum.splits option.splits if_splits)

lemma init_Inr:
  assumes "init reg mode_in mA mB fA fB = (reg', Inr r)"
  obtains m fb where "convert_mode mode_in = Inr m" "default_fieldB m mA fB = Some fb"
    "check_for_reverse (AList.update (m, mA, mB, fA, fb) (new_record m mA mB fA (Some fb)) reg)
       (m, mA, mB, fA, fb) (new_record m mA mB fA (Some fb)) = (reg', Inr r)"
proof (cases "convert_mode mode_in")
  case (Inl e)
  then show ?thesis using assms by (simp add: init_no_mode)
next
  case (Inr m)
  show ?thesis
  proof (cases "default_fieldB m mA fB")
    case None
    then show ?thesis using assms Inr by (simp add: init_no_fieldB)
  next
    case (Some fb)
    then show ?thesis using assms Inr that by (simp add: init_stored)
  qed
qed

lemma distinct_check_for_reverse:
  "distinct (map fst reg) \<Longrightarrow> distinct (map fst (fst (check_for_reverse reg k self)))"
  by (auto simp: check_for_reverse_def Let_def set_reverse_created_def distinct_update
      split: sum.splits option.splits)

lemma distinct_init:
  "distinct (map fst reg) \<Longrightarrow> distinct (map fst (fst (init reg mode_in mA mB fA fB)))"
  by (auto simp: init_def Let_def distinct_check_for_reverse distinct_update
      split: sum.splits)

lemma distinct_foldl:
  "distinct (map fst reg) \<Longrightarrow> distinct (map fst (foldl construct reg calls))"
  by (induction calls arbitrary: reg) (auto simp: construct_def distinct_init split: prod.splits)

lemma distinct_after: "distinct (map fst (registry_after calls))"
  unfolding registry_after_def by (rule distinct_foldl) simp


text \<open>The definitions a concrete run of the registry unfolds.\<close>

lemmas registry_eval = registry_after_def construct_def init_def convert_mode_def default_fieldB_def
  new_record_def get_key_def check_for_reverse_def get_reverse_key_def flip_mode_def mode_defs
  registry_get_def as_key_def set_reverse_created_def Let_def


subsection \<open>The readiness check\<close>

lemma for_each_Inr:
  "(\<And>x. x \<in> set xs \<Longrightarrow> f x = Inr (g x)) \<Longrightarrow> for_each f xs = Inr (map g xs)"
  by (induction xs) auto

lemma set_check_model_valid:
  "set (check_model_valid reg model) =
     {r. r \<in> snd ` set reg \<and> modelB r = model \<and> \<not> reverse_created r}"
  by (force simp: check_model_valid_def image_iff)

lemma ran_distinct: "distinct (map fst reg) \<Longrightarrow> snd ` set reg = ran (map_of reg)"
  by (force simp: ran_def image_iff dest: map_of_SomeD intro: map_of_is_SomeI)

lemma modes_valid_update:
  "modes_valid reg \<Longrightarrow> valid_mode (mode r) \<Longrightarrow> modes_valid (AList.update k r reg)"
  by (induction reg) (auto simp: modes_valid_def)

lemma modes_valid_map_of:
  "modes_valid reg \<Longrightarrow> map_of reg k = Some r \<Longrightarrow> valid_mode (mode r)"
  by (auto simp: modes_valid_def list_all_iff dest: map_of_SomeD)

lemma modes_valid_set_reverse_created:
  "modes_valid reg \<Longrightarrow> modes_valid (set_reverse_created k reg)"
  by (auto simp: set_reverse_created_def split: option.splits
      intro!: modes_valid_update dest: modes_valid_map_of)

lemma modes_valid_check_for_reverse:
  "modes_valid reg \<Longrightarrow> valid_mode (mode self) \<Longrightarrow> modes_valid (fst (check_for_reverse reg k self))"
  by (auto simp: check_for_reverse_def Let_def split: sum.splits option.splits
      intro!: modes_valid_update modes_valid_set_reverse_created)

lemma field_mode_valid: "field_mode f = Inr m \<Longrightarrow> valid_mode m"
  by (auto simp: field_mode_def valid_mode_def split: if_splits)

lemma fst_case_result:
  "fst (case x of (r, Inl e) \<Rightarrow> (r, Inl e) | (r, Inr y) \<Rightarrow> if c r y then (r, A r y) else (r, B r y)) = fst x"
  "fst (case x of (r, Inl e) \<Rightarrow> (r, Inl e) | (r, Inr y) \<Rightarrow> (r, C r y)) = fst x"
  by (cases x; cases "snd x"; simp)+

text \<open>
  \<^verbatim>\<open>register_field_object\<close> leaves the registry as it was or as a constructor call with
  one of the four modes, the name of the class and the name of the field leaves it.
\<close>

lemma register_field_object_registry:
  assumes "P reg"
    and "\<And>m mB fB. valid_mode m \<Longrightarrow> P (fst (init reg (ModeStr m) name mB field_name fB))"
  shows "P (fst (register_field_object reg name field_name f))"
  using assms
  by (auto simp: register_field_object_def fst_case_result
      split: sum.splits option.splits prod.splits dest: field_mode_valid)

lemma modes_valid_init:
  "modes_valid reg \<Longrightarrow> valid_mode m \<Longrightarrow> modes_valid (fst (init reg (ModeStr m) mA mB fA fB))"
  by (auto simp: init_def convert_mode_def Let_def new_record_def get_key_def
      split: sum.splits option.splits
      intro!: modes_valid_check_for_reverse modes_valid_update)

lemma modes_valid_register:
  "modes_valid reg \<Longrightarrow> modes_valid (fst (register_field_object reg name field_name f))"
  by (rule register_field_object_registry) (simp_all add: modes_valid_init)

lemma registry_ok_register:
  "registry_ok reg \<Longrightarrow> registry_ok (fst (register_field_object reg name field_name f))"
  by (rule register_field_object_registry) (simp_all add: registry_ok_init)

lemma distinct_register:
  "distinct (map fst reg) \<Longrightarrow> distinct (map fst (fst (register_field_object reg name field_name f)))"
  by (rule register_field_object_registry) (simp_all add: distinct_init)

lemma registry_of_fields_foldl:
  assumes "P reg" "\<And>r name field_name f. P r \<Longrightarrow> P (fst (register_field_object r name field_name f))"
  shows "P (foldl register_field reg fs)"
  using assms(1)
  by (induction fs arbitrary: reg) (auto simp: register_field_def assms(2) split: prod.splits)

lemma modes_valid_of_fields: "modes_valid (registry_of_fields fs)"
  unfolding registry_of_fields_def
proof (rule registry_of_fields_foldl)
  show "modes_valid []" by (simp add: modes_valid_def)
qed (rule modes_valid_register)

lemma registry_ok_of_fields: "registry_ok (registry_of_fields fs)"
  unfolding registry_of_fields_def
proof (rule registry_of_fields_foldl)
  show "registry_ok []" by (simp add: registry_ok_def)
qed (rule registry_ok_register)

lemma distinct_of_fields: "distinct (map fst (registry_of_fields fs))"
  unfolding registry_of_fields_def
proof (rule registry_of_fields_foldl)
  show "distinct (map fst ([] :: registry))" by simp
qed (rule distinct_register)

lemma registry_of_fields_snoc:
  "registry_of_fields (fs @ [(name, field_name, f)]) =
     fst (register_field_object (registry_of_fields fs) name field_name f)"
  by (simp add: registry_of_fields_def register_field_def)

lemma warning_for_valid:
  assumes "valid_mode (mode ir)"
  shows "\<exists>w. warning_for model ir = Inr w \<and> msg_id w = ''freeform.W001'' \<and>
             msg_obj w = app_label model @ ''.'' @ modelA ir @ ''.'' @ fieldA ir"
proof -
  obtain rm where "flip_mode (mode ir) = Inr rm" using flip_mode_valid[OF assms] by blast
  then show ?thesis by (simp add: warning_for_def reverse_mode_def)
qed

lemma warnings_of_model_valid:
  assumes "modes_valid reg"
  shows "\<exists>ws. warnings_of_model reg model = Inr ws \<and>
     map (\<lambda>w. (msg_obj w, msg_id w)) ws =
       (if is_typed_model model
        then map (\<lambda>ir. (app_label model @ ''.'' @ modelA ir @ ''.'' @ fieldA ir, ''freeform.W001''))
               (check_model_valid reg (model_name model))
        else [])"
proof (cases "is_typed_model model")
  case False
  then show ?thesis by (simp add: warnings_of_model_def)
next
  case True
  define g where "g = (\<lambda>ir. SOME w. warning_for model ir = Inr w)"
  have v: "valid_mode (mode ir)" if "ir \<in> set (check_model_valid reg (model_name model))" for ir
    using that assms by (auto simp: check_model_valid_def modes_valid_def list_all_iff)
  have g: "warning_for model ir = Inr (g ir) \<and> msg_id (g ir) = ''freeform.W001'' \<and>
             msg_obj (g ir) = app_label model @ ''.'' @ modelA ir @ ''.'' @ fieldA ir"
    if mem: "ir \<in> set (check_model_valid reg (model_name model))" for ir
  proof -
    note vm = v[OF mem]
    obtain w where w: "warning_for model ir = Inr w" "msg_id w = ''freeform.W001''"
      "msg_obj w = app_label model @ ''.'' @ modelA ir @ ''.'' @ fieldA ir"
      using warning_for_valid[OF vm] by blast
    then have "g ir = w" by (simp add: g_def)
    then show ?thesis using w by simp
  qed
  have "for_each (warning_for model) (check_model_valid reg (model_name model)) =
          Inr (map g (check_model_valid reg (model_name model)))"
    by (rule for_each_Inr) (simp add: g)
  then show ?thesis using True g by (simp add: warnings_of_model_def)
qed

lemma reverse_foreign_key_warning_valid:
  assumes "modes_valid reg"
  shows "\<exists>ws. reverse_foreign_key_warning all_models reg = Inr ws \<and>
     map (\<lambda>w. (msg_obj w, msg_id w)) ws =
       concat (map (\<lambda>model.
          if is_typed_model model
          then map (\<lambda>ir. (app_label model @ ''.'' @ modelA ir @ ''.'' @ fieldA ir, ''freeform.W001''))
                 (check_model_valid reg (model_name model))
          else []) (concat all_models))"
proof -
  define g where "g = (\<lambda>model. SOME ws. warnings_of_model reg model = Inr ws)"
  have g: "warnings_of_model reg model = Inr (g model) \<and>
     map (\<lambda>w. (msg_obj w, msg_id w)) (g model) =
       (if is_typed_model model
        then map (\<lambda>ir. (app_label model @ ''.'' @ modelA ir @ ''.'' @ fieldA ir, ''freeform.W001''))
               (check_model_valid reg (model_name model))
        else [])" for model
  proof -
    obtain ws where ws: "warnings_of_model reg model = Inr ws"
      "map (\<lambda>w. (msg_obj w, msg_id w)) ws =
       (if is_typed_model model
        then map (\<lambda>ir. (app_label model @ ''.'' @ modelA ir @ ''.'' @ fieldA ir, ''freeform.W001''))
               (check_model_valid reg (model_name model))
        else [])"
      using warnings_of_model_valid[OF assms] by blast
    then have "g model = ws" by (simp add: g_def)
    then show ?thesis using ws by simp
  qed
  have "for_each (warnings_of_model reg) (concat all_models) = Inr (map g (concat all_models))"
    by (rule for_each_Inr) (simp add: g)
  then have "reverse_foreign_key_warning all_models reg = Inr (concat (map g (concat all_models)))"
    by (simp add: reverse_foreign_key_warning_def)
  moreover have "map (\<lambda>w. (msg_obj w, msg_id w)) (concat (map g (concat all_models))) =
       concat (map (\<lambda>model.
          if is_typed_model model
          then map (\<lambda>ir. (app_label model @ ''.'' @ modelA ir @ ''.'' @ fieldA ir, ''freeform.W001''))
                 (check_model_valid reg (model_name model))
          else []) (concat all_models))"
    using g by (simp add: map_concat comp_def)
  ultimately show ?thesis by blast
qed

lemma check_model_valid_filter:
  "check_model_valid reg model =
     filter (\<lambda>r. modelB r = model \<and> \<not> reverse_created r) (map snd reg)"
  by (induction reg) (auto simp: check_model_valid_def)

lemma distinct_records:
  assumes "distinct (map fst reg)" "registry_ok reg"
  shows "distinct (map snd reg)"
proof -
  have eq: "map fst reg = map (\<lambda>r. projr (get_key r)) (map snd reg)"
  proof -
    have "fst p = projr (get_key (snd p))" if "p \<in> set reg" for p
    proof -
      have "map_of reg (fst p) = Some (snd p)"
        using that assms(1) by (intro map_of_is_SomeI) simp_all
      then have "get_key (snd p) = Inr (fst p)" using assms(2) registry_ok_key by blast
      then show ?thesis by simp
    qed
    then show ?thesis by simp
  qed
  have "distinct (map (\<lambda>r. projr (get_key r)) (map snd reg))"
    unfolding eq[symmetric] by (rule assms(1))
  then show ?thesis unfolding distinct_map by blast
qed

lemmas field_eval = registry_of_fields_def register_field_def register_field_object_def
  field_mode_def many_to_many_def one_to_one_def one_to_many_def many_to_one_def
  remote_model_def related_name_def target_name_def model_name_of_def str_of_kwarg_def
  field_names_def hashable_kwarg_def hashable_annotation_def



subsection \<open>The loop of the metaclass\<close>

lemma new_step_processed:
  assumes "is_snake_case variable"
    and "(\<exists>s. dict_get dct variable = VStr s) \<or> \<not> truthy (dict_get dct variable)"
  shows "new_step lr fw name variable ft0 dct reg =
     (let dflt = (case dict_get dct variable of VStr s \<Rightarrow> Some s | _ \<Rightarrow> None) in
      case strip_union ft0 of
        Inl e \<Rightarrow> (reg, Inl e)
      | Inr (ft, null) \<Rightarrow>
          (case get_django_lookup lr ft of
             Inl e \<Rightarrow> (reg, Inl e)
           | Inr None \<Rightarrow> (reg, Inl (ValueError (NoDefaultField variable)))
           | Inr (Some field_instance) \<Rightarrow>
               (case item fw field_instance dflt null False of
                  Inl e \<Rightarrow> (reg, Inl e)
                | Inr field_object \<Rightarrow>
                    if is_relation (fo_class field_object) then
                      (case register_field_object reg name variable field_object of
                         (reg', Inl e) \<Rightarrow> (reg', Inl e)
                       | (reg', Inr registered) \<Rightarrow>
                           if (fo_class field_object = ManyToManyField \<or>
                               fo_class field_object = OneToOneField) \<and>
                              (case registered of None \<Rightarrow> False | Some r \<Rightarrow> reverse_created r)
                           then (reg', Inr (AList.delete variable dct))
                           else (reg', Inr (AList.update variable (VField field_object) dct)))
                    else (reg, Inr (AList.update variable (VField field_object) dct)))))"
  using assms by (cases "dict_get dct variable") (simp_all add: new_step_def truthy_def)

lemma new_loop_append:
  "new_loop lr fw name (xs @ ys) dct reg =
     (case new_loop lr fw name xs dct reg of
        (reg', Inl e) \<Rightarrow> (reg', Inl e)
      | (reg', Inr dct') \<Rightarrow> new_loop lr fw name ys dct' reg')"
  by (induction xs arbitrary: dct reg) (auto split: prod.splits sum.splits)

text \<open>The definitions a concrete run of the metaclass unfolds.\<close>

lemmas lookup_eval = get_django_lookup_def fix_self_def is_model_or_str_def has_origin_def
  get_origin_def get_specialisation_name_or_type_def get_args_def plain_lookup_def
  has_metadata_def get_metadata_def lookup_of_metadata_def types_to_fields_def FieldLookup_def

lemmas step_eval = TypedModelBase_new_def new_step_def is_snake_case_def islower_def dict_get_def
  truthy_def strip_union_def is_union_def item_def item_kwargs_def construct_field_def
  is_model_or_name_def OneToManyFieldStandIn_init_def is_relation_def is_ForeignObject_def

lemma new_step_other_keys:
  assumes "v \<noteq> variable" "new_step lr fw name variable ft dct reg = (reg', Inr dct')"
  shows "map_of dct' v = map_of dct v"
  using assms
  by (auto simp: new_step_def Let_def update_conv' delete_conv'
      split: if_splits dict_value.splits sum.splits option.splits prod.splits)

lemma new_step_not_snake:
  "\<not> is_snake_case variable \<Longrightarrow> new_step lr fw name variable ft dct reg = (reg, Inr dct)"
  by (simp add: new_step_def)

lemma new_loop_not_snake:
  assumes "\<not> is_snake_case v" "new_loop lr fw name annotations dct reg = (reg', Inr dct')"
  shows "map_of dct' v = map_of dct v"
  using assms
proof (induction annotations arbitrary: dct reg)
  case Nil
  then show ?case by simp
next
  case (Cons a annotations)
  obtain variable ft where a: "a = (variable, ft)" by (cases a)
  obtain reg1 res where s: "new_step lr fw name variable ft dct reg = (reg1, res)" by fastforce
  with Cons.prems a obtain dct1 where r: "res = Inr dct1"
    and l: "new_loop lr fw name annotations dct1 reg1 = (reg', Inr dct')"
    by (cases res) auto
  have "map_of dct1 v = map_of dct v"
  proof (cases "v = variable")
    case True
    then show ?thesis using Cons.prems(1) s r by (simp add: new_step_not_snake)
  next
    case False
    then show ?thesis using s r new_step_other_keys by blast
  qed
  then show ?case using Cons.IH[OF Cons.prems(1) l] by simp
qed

lemma check_for_reverse_new_keys:
  "map_of (fst (check_for_reverse reg k self)) k' \<noteq> None \<Longrightarrow> map_of reg k' \<noteq> None \<or> k' = k"
  by (auto simp: check_for_reverse_def Let_def update_conv' map_of_set_reverse_created
      split: sum.splits option.splits if_splits)

lemma init_new_keys:
  assumes "map_of (fst (init reg mode_in mA mB fA fB)) k \<noteq> None"
  shows "map_of reg k \<noteq> None \<or> (fst (snd k) = mA \<and> fst (snd (snd (snd k))) = fA)"
proof (cases "convert_mode mode_in")
  case (Inl e)
  then show ?thesis using assms by (simp add: init_no_mode)
next
  case (Inr m)
  show ?thesis
  proof (cases "default_fieldB m mA fB")
    case None
    then show ?thesis using assms Inr by (simp add: init_no_fieldB)
  next
    case (Some fb)
    define k0 where "k0 = (m, mA, mB, fA, fb)"
    define self where "self = new_record m mA mB fA (Some fb)"
    have i: "init reg mode_in mA mB fA fB = check_for_reverse (AList.update k0 self reg) k0 self"
      unfolding k0_def self_def using Inr Some by (rule init_stored)
    from assms have "map_of (AList.update k0 self reg) k \<noteq> None \<or> k = k0"
      unfolding i by (rule check_for_reverse_new_keys)
    then have "map_of reg k \<noteq> None \<or> k = k0" by (auto simp: update_conv' split: if_splits)
    then show ?thesis by (auto simp: k0_def)
  qed
qed

lemma register_new_keys:
  assumes "map_of (fst (register_field_object reg name variable f)) k \<noteq> None"
  shows "map_of reg k \<noteq> None \<or> (fst (snd k) = name \<and> fst (snd (snd (snd k))) = variable)"
proof -
  have "map_of (fst (register_field_object reg name variable f)) k \<noteq> None \<longrightarrow>
        map_of reg k \<noteq> None \<or> (fst (snd k) = name \<and> fst (snd (snd (snd k))) = variable)"
    by (rule register_field_object_registry) (use init_new_keys in blast)+
  then show ?thesis using assms by blast
qed

lemma new_step_registry:
  assumes "P reg" "\<And>f. P (fst (register_field_object reg name variable f))"
  shows "P (fst (new_step lr fw name variable ft dct reg))"
  using assms
  by (auto simp: new_step_def Let_def fst_case_result
      split: dict_value.splits sum.splits option.splits)

lemma new_step_new_keys:
  assumes "map_of (fst (new_step lr fw name variable ft dct reg)) k \<noteq> None"
  shows "map_of reg k \<noteq> None \<or>
         (fst (snd k) = name \<and> fst (snd (snd (snd k))) = variable \<and> is_snake_case variable)"
proof (cases "is_snake_case variable")
  case False
  then show ?thesis using assms by (simp add: new_step_not_snake)
next
  case True
  have "map_of (fst (new_step lr fw name variable ft dct reg)) k \<noteq> None \<longrightarrow>
        map_of reg k \<noteq> None \<or> (fst (snd k) = name \<and> fst (snd (snd (snd k))) = variable)"
    by (rule new_step_registry) (use register_new_keys in blast)+
  then show ?thesis using assms True by blast
qed

lemma new_loop_new_keys:
  assumes "map_of (fst (new_loop lr fw name annotations dct reg)) k \<noteq> None"
  shows "map_of reg k \<noteq> None \<or>
         (fst (snd k) = name \<and> is_snake_case (fst (snd (snd (snd k)))))"
  using assms
proof (induction annotations arbitrary: dct reg)
  case Nil
  then show ?case by simp
next
  case (Cons a annotations)
  obtain variable ft where a: "a = (variable, ft)" by (cases a)
  obtain reg1 res where s: "new_step lr fw name variable ft dct reg = (reg1, res)" by fastforce
  have 1: "map_of reg1 k \<noteq> None \<Longrightarrow> ?case"
    using new_step_new_keys[of lr fw name variable ft dct reg k] s by auto
  show ?case
  proof (cases res)
    case (Inl e)
    then show ?thesis using Cons.prems a s 1 by simp
  next
    case (Inr dct1)
    then have "map_of (fst (new_loop lr fw name annotations dct1 reg1)) k \<noteq> None"
      using Cons.prems a s by simp
    from Cons.IH[OF this] show ?thesis using 1 by blast
  qed
qed

lemma not_snake_case:
  "\<exists>c\<in>set variable. \<not> (islower c \<or> c = CHR ''_'') \<Longrightarrow> \<not> is_snake_case variable"
  by (auto simp: is_snake_case_def list_all_iff)



text \<open>The metaclass takes a registry filled by registrations to another one.\<close>

lemma new_step_fields:
  "\<exists>fs'. fst (new_step lr fw name variable ft dct (registry_of_fields fs)) =
          registry_of_fields (fs @ fs')"
proof (rule new_step_registry)
  show "\<exists>fs'. registry_of_fields fs = registry_of_fields (fs @ fs')"
    by (rule exI[of _ "[]"]) simp
  show "\<exists>fs'. fst (register_field_object (registry_of_fields fs) name variable f) =
          registry_of_fields (fs @ fs')" for f
    by (rule exI[of _ "[(name, variable, f)]"]) (simp add: registry_of_fields_snoc)
qed

lemma new_loop_fields:
  "\<exists>fs'. fst (new_loop lr fw name annotations dct (registry_of_fields fs)) =
          registry_of_fields (fs @ fs')"
proof (induction annotations arbitrary: dct fs)
  case Nil
  show ?case by (rule exI[of _ "[]"]) simp
next
  case (Cons a annotations)
  obtain variable ft where a: "a = (variable, ft)" by (cases a)
  obtain reg1 res where s: "new_step lr fw name variable ft dct (registry_of_fields fs) = (reg1, res)"
    by fastforce
  obtain fs1 where f1: "reg1 = registry_of_fields (fs @ fs1)"
    using new_step_fields[of lr fw name variable ft dct fs] s by auto
  show ?case
  proof (cases res)
    case (Inl e)
    then show ?thesis using a s f1 by auto
  next
    case (Inr dct1)
    obtain fs2 where "fst (new_loop lr fw name annotations dct1 (registry_of_fields (fs @ fs1))) =
        registry_of_fields ((fs @ fs1) @ fs2)"
      using Cons.IH by blast
    then show ?thesis using a s f1 Inr by (intro exI[of _ "fs1 @ fs2"]) simp
  qed
qed

lemma TypedModelBase_new_fields:
  "\<exists>fs'. fst (TypedModelBase_new lr fw name annotations dct kw (registry_of_fields fs)) =
          registry_of_fields (fs @ fs')"
proof -
  have "fst (TypedModelBase_new lr fw name annotations dct kw (registry_of_fields fs)) =
        fst (new_loop lr fw name annotations dct (registry_of_fields fs))"
    by (simp add: TypedModelBase_new_def fst_case_result)
  then show ?thesis using new_loop_fields by simp
qed
section \<open>The claims\<close>

text \<open>
  C7. Reversal is an involution. For each of the four modes, flipping twice gives the mode
  back: one-to-one and many-to-many are their own reverse, one-to-many and many-to-one
  swap. So the reverse key of a record whose key is the reverse key of \<open>r\<close> is the
  key of \<open>r\<close> again.
\<close>

theorem reversal_involution:
  "valid_mode m \<Longrightarrow>
     (\<exists>m'. flip_mode m = Inr m' \<and> valid_mode m' \<and> flip_mode m' = Inr m) \<and>
     flip_mode ONE_TO_ONE = Inr ONE_TO_ONE \<and>
     flip_mode MANY_TO_MANY = Inr MANY_TO_MANY \<and>
     flip_mode ONE_TO_MANY = Inr MANY_TO_ONE \<and>
     flip_mode MANY_TO_ONE = Inr ONE_TO_MANY \<and>
     (\<forall>r k. mode r = m \<and> get_key r = Inr k \<longrightarrow>
        (\<exists>rk k'. get_reverse_key r = Inr rk \<and> as_key rk = Some k' \<and>
           (\<forall>r'. get_key r' = Inr k' \<longrightarrow>
              (\<exists>rk'. get_reverse_key r' = Inr rk' \<and> as_key rk' = Some k))))"
proof (intro conjI allI impI)
  assume v: "valid_mode m"
  then show "\<exists>m'. flip_mode m = Inr m' \<and> valid_mode m' \<and> flip_mode m' = Inr m"
    by (rule flip_mode_valid)
  show "flip_mode ONE_TO_ONE = Inr ONE_TO_ONE" by (simp add: flip_mode_def)
  show "flip_mode MANY_TO_MANY = Inr MANY_TO_MANY" by (simp add: flip_mode_def mode_defs)
  show "flip_mode ONE_TO_MANY = Inr MANY_TO_ONE" by (simp add: flip_mode_def mode_defs)
  show "flip_mode MANY_TO_ONE = Inr ONE_TO_MANY" by (simp add: flip_mode_def mode_defs)
  fix r k
  assume rk: "mode r = m \<and> get_key r = Inr k"
  from v obtain m' where m': "flip_mode m = Inr m'" "flip_mode m' = Inr m"
    using flip_mode_valid by blast
  from rk obtain fb where fb: "fieldB r = Some fb" "k = (m, modelA r, modelB r, fieldA r, fb)"
    by (auto simp: get_key_def split: option.splits)
  let ?rk = "(m', modelB r, modelA r, Some fb, fieldA r)"
  let ?k' = "(m', modelB r, modelA r, fb, fieldA r)"
  have 1: "get_reverse_key r = Inr ?rk" using rk m' fb by (simp add: get_reverse_key_def)
  have 2: "as_key ?rk = Some ?k'" by (simp add: as_key_def)
  have 3: "\<exists>rk'. get_reverse_key r' = Inr rk' \<and> as_key rk' = Some k" if "get_key r' = Inr ?k'" for r'
  proof -
    from that have "fieldB r' = Some (fieldA r)" "mode r' = m'" "modelA r' = modelB r"
      "modelB r' = modelA r" "fieldA r' = fb"
      by (auto simp: get_key_def split: option.splits)
    then show ?thesis using m' fb by (simp add: get_reverse_key_def as_key_def)
  qed
  show "\<exists>rk k'. get_reverse_key r = Inr rk \<and> as_key rk = Some k' \<and>
           (\<forall>r'. get_key r' = Inr k' \<longrightarrow>
              (\<exists>rk'. get_reverse_key r' = Inr rk' \<and> as_key rk' = Some k))"
    using 1 2 3 by blast
qed

theorem reversal_involution_witness:
  "valid_mode ''OneToMany'' \<and> flip_mode ''OneToMany'' = Inr ''ManyToOne'' \<and> flip_mode ''ManyToOne'' = Inr ''OneToMany'' \<and>
   get_reverse_key \<lparr>mode = ''OneToMany'', modelA = ''Author'', modelB = ''Book'', fieldA = ''books'',
        fieldB = Some ''author'', reverse_created = False\<rparr> = Inr (''ManyToOne'', ''Book'', ''Author'', Some ''author'', ''books'') \<and>
   get_reverse_key \<lparr>mode = ''ManyToOne'', modelA = ''Book'', modelB = ''Author'', fieldA = ''author'',
        fieldB = Some ''books'', reverse_created = True\<rparr> = Inr (''OneToMany'', ''Author'', ''Book'', Some ''books'', ''author'')"
proof -
  have v: "valid_mode ''OneToMany''" by (simp add: valid_mode_def mode_defs)
  note t = reversal_involution [OF v]
  from t have "\<exists>m'. flip_mode ''OneToMany'' = Inr m' \<and> valid_mode m' \<and> flip_mode m' = Inr ''OneToMany''" by blast
  moreover have "flip_mode ''OneToMany'' = Inr ''ManyToOne''" by (simp add: flip_mode_def mode_defs)
  ultimately have "flip_mode ''ManyToOne'' = Inr ''OneToMany''" by auto
  then show ?thesis using v by (simp add: get_reverse_key_def flip_mode_def mode_defs)
qed

text \<open>
  C1. In every registry state a program can reach, a constructor call whose reverse key
  holds a record already marked \<^verbatim>\<open>reverse_created\<close> raises the \<^verbatim>\<open>ValueError\<close> of
  \<^verbatim>\<open>check_for_reverse\<close>. So a call that returns and found its reverse found it unmarked,
  and marks it; and a marked record stays marked through every later call, returned or
  raised. A record is therefore matched by at most one constructor call that returns.
\<close>

theorem second_reverse_raises:
  "(convert_mode mode_in = Inr m \<and> default_fieldB m mA fB = Some fb \<and> flip_mode m = Inr fm \<and>
    map_of (registry_after calls) (fm, mB, mA, fb, fA) = Some rv \<and> reverse_created rv \<longrightarrow>
      snd (init (registry_after calls) mode_in mA mB fA fB) =
        Inl (ValueError (MultipleReverse (fm, mB, mA, fb, fA)))) \<and>
   (init (registry_after calls) mode_in mA mB fA fB = (reg', Inr r) \<and>
    get_reverse_key r = Inr rkey \<and> registry_get (registry_after calls) rkey = Some rv' \<longrightarrow>
      \<not> reverse_created rv' \<and> reverse_created r \<and>
      (\<exists>rv''. registry_get reg' rkey = Some rv'' \<and> reverse_created rv'')) \<and>
   (map_of (registry_after calls) k0 = Some r0 \<and> reverse_created r0 \<longrightarrow>
      (\<exists>r1. map_of (fst (init (registry_after calls) mode_in mA mB fA fB)) k0 = Some r1 \<and>
            reverse_created r1))"
proof (intro conjI impI)
  let ?reg = "registry_after calls"
  have ok: "registry_ok ?reg" by (rule registry_ok_after)
  {
    assume a: "convert_mode mode_in = Inr m \<and> default_fieldB m mA fB = Some fb \<and> flip_mode m = Inr fm \<and>
      map_of ?reg (fm, mB, mA, fb, fA) = Some rv \<and> reverse_created rv"
    define k where "k = (m, mA, mB, fA, fb)"
    define rk where "rk = (fm, mB, mA, fb, fA)"
    define self where "self = new_record m mA mB fA (Some fb)"
    have gk: "get_key self = Inr k" unfolding k_def self_def by (rule new_record_keys)
    have grk: "get_reverse_key self = Inr (fm, mB, mA, Some fb, fA)"
      unfolding self_def using a by (intro new_record_keys) simp
    have ak: "as_key (fm, mB, mA, Some fb, fA) = Some rk" unfolding rk_def by (rule new_record_keys)
    have mrk: "map_of ?reg rk = Some rv" and mk: "reverse_created rv" using a by (simp_all add: rk_def)
    have i: "init ?reg mode_in mA mB fA fB = check_for_reverse (AList.update k self ?reg) k self"
      unfolding k_def self_def using a by (intro init_stored) simp_all
    have "snd (init ?reg mode_in mA mB fA fB) = Inl (ValueError (MultipleReverse rk))"
    proof (cases "rk = k")
      case True
      have "map_of (AList.update k self ?reg) k = Some self" by (simp add: update_conv')
      from check_for_reverse_self[OF grk ak[unfolded True] this gk] show ?thesis
        unfolding i True by simp
    next
      case False
      then have "map_of (AList.update k self ?reg) rk = Some rv" using mrk by (simp add: update_conv')
      moreover have "get_key rv = Inr rk" using ok mrk by (rule registry_ok_key)
      ultimately show ?thesis
        using check_for_reverse_marked[OF grk ak _ False mk] unfolding i by simp
    qed
    then show "snd (init ?reg mode_in mA mB fA fB) = Inl (ValueError (MultipleReverse (fm, mB, mA, fb, fA)))"
      by (simp add: rk_def)
  }
  {
    assume a: "init ?reg mode_in mA mB fA fB = (reg', Inr r) \<and>
      get_reverse_key r = Inr rkey \<and> registry_get ?reg rkey = Some rv'"
    then obtain m0 fb0 where c: "check_for_reverse
        (AList.update (m0, mA, mB, fA, fb0) (new_record m0 mA mB fA (Some fb0)) ?reg)
        (m0, mA, mB, fA, fb0) (new_record m0 mA mB fA (Some fb0)) = (reg', Inr r)"
      by (blast elim: init_Inr)
    define k where "k = (m0, mA, mB, fA, fb0)"
    define self where "self = new_record m0 mA mB fA (Some fb0)"
    note c' = c[folded k_def self_def]
    have st: "map_of (AList.update k self ?reg) k = Some self" by (simp add: update_conv')
    have nr: "\<not> reverse_created self" by (simp add: self_def new_record_def)
    obtain b where "r = self\<lparr>reverse_created := b\<rparr>"
      using check_for_reverse_stored[OF st c'] by blast
    then have grk: "get_reverse_key self = Inr rkey" using a by simp
    obtain rk where ak: "as_key rkey = Some rk" and mrk: "map_of ?reg rk = Some rv'"
      using a by (auto simp: registry_get_def split: option.splits)
    obtain x where x: "registry_get (AList.update k self ?reg) rkey = Some x"
      using registry_get_present[OF ak mrk] by blast
    from check_for_reverse_success[OF st nr c' grk x]
    have nk: "rk \<noteq> k" and rest: "reverse_created r"
      "\<exists>rv''. registry_get reg' rkey = Some rv'' \<and> reverse_created rv''" "\<not> reverse_created x"
      using ak by auto
    have "x = rv'" using x ak mrk nk by (simp add: registry_get_def update_conv')
    then show "\<not> reverse_created rv'" "reverse_created r"
      "\<exists>rv''. registry_get reg' rkey = Some rv'' \<and> reverse_created rv''"
      using rest by simp_all
  }
  {
    assume "map_of ?reg k0 = Some r0 \<and> reverse_created r0"
    then show "\<exists>r1. map_of (fst (init ?reg mode_in mA mB fA fB)) k0 = Some r1 \<and> reverse_created r1"
      using init_keeps_marks[OF ok] by blast
  }
qed

theorem second_reverse_raises_witness:
  "map_of (registry_after
      [(ModeStr ''ManyToOne'', ''Book'', ''Author'', ''author'', Some ''books''),
       (ModeStr ''OneToMany'', ''Author'', ''Book'', ''books'', Some ''author'')])
      (''ManyToOne'', ''Book'', ''Author'', ''author'', ''books'') =
     Some \<lparr>mode = ''ManyToOne'', modelA = ''Book'', modelB = ''Author'', fieldA = ''author'',
            fieldB = Some ''books'', reverse_created = True\<rparr> \<and>
   snd (init (registry_after
      [(ModeStr ''ManyToOne'', ''Book'', ''Author'', ''author'', Some ''books''),
       (ModeStr ''OneToMany'', ''Author'', ''Book'', ''books'', Some ''author'')])
      (ModeStr ''OneToMany'') ''Author'' ''Book'' ''books'' (Some ''author'')) =
     Inl (ValueError (MultipleReverse (''ManyToOne'', ''Book'', ''Author'', ''author'', ''books''))) \<and>
   registry_get (registry_after
      [(ModeStr ''ManyToOne'', ''Book'', ''Author'', ''author'', Some ''books'')])
      (''ManyToOne'', ''Book'', ''Author'', Some ''author'', ''books'') =
     Some \<lparr>mode = ''ManyToOne'', modelA = ''Book'', modelB = ''Author'', fieldA = ''author'',
            fieldB = Some ''books'', reverse_created = False\<rparr> \<and>
   snd (init (registry_after
      [(ModeStr ''ManyToOne'', ''Book'', ''Author'', ''author'', Some ''books'')])
      (ModeStr ''OneToMany'') ''Author'' ''Book'' ''books'' (Some ''author'')) =
     Inr \<lparr>mode = ''OneToMany'', modelA = ''Author'', modelB = ''Book'', fieldA = ''books'',
            fieldB = Some ''author'', reverse_created = True\<rparr> \<and>
   (\<exists>r1. map_of (fst (init (registry_after
      [(ModeStr ''ManyToOne'', ''Book'', ''Author'', ''author'', Some ''books''),
       (ModeStr ''OneToMany'', ''Author'', ''Book'', ''books'', Some ''author'')])
      (ModeStr ''ManyToOne'') ''Book'' ''Author'' ''author'' (Some ''books'')))
      (''ManyToOne'', ''Book'', ''Author'', ''author'', ''books'') = Some r1 \<and> reverse_created r1)"
proof -
  let ?f = "(ModeStr ''ManyToOne'', ''Book'', ''Author'', ''author'', Some ''books'')"
  let ?b = "(ModeStr ''OneToMany'', ''Author'', ''Book'', ''books'', Some ''author'')"
  let ?fr = "\<lparr>mode = ''ManyToOne'', modelA = ''Book'', modelB = ''Author'', fieldA = ''author'',
            fieldB = Some ''books'', reverse_created = True\<rparr>"
  let ?br = "\<lparr>mode = ''OneToMany'', modelA = ''Author'', modelB = ''Book'', fieldA = ''books'',
            fieldB = Some ''author'', reverse_created = True\<rparr>"
  have two: "registry_after [?f, ?b] =
      [((''ManyToOne'', ''Book'', ''Author'', ''author'', ''books''), ?fr),
       ((''OneToMany'', ''Author'', ''Book'', ''books'', ''author''), ?br)]"
    by (simp add: registry_eval)
  have one: "registry_after [?f] =
      [((''ManyToOne'', ''Book'', ''Author'', ''author'', ''books''), ?fr\<lparr>reverse_created := False\<rparr>)]"
    by (simp add: registry_eval)
  have h1: "convert_mode (ModeStr ''OneToMany'') = Inr ''OneToMany'' \<and>
      default_fieldB ''OneToMany'' ''Author'' (Some ''author'') = Some ''author'' \<and>
      flip_mode ''OneToMany'' = Inr ''ManyToOne'' \<and>
      map_of (registry_after [?f, ?b]) (''ManyToOne'', ''Book'', ''Author'', ''author'', ''books'') = Some ?fr \<and>
      reverse_created ?fr"
    unfolding two by (simp add: convert_mode_def default_fieldB_def flip_mode_def mode_defs)
  have c1: "snd (init (registry_after [?f, ?b]) (ModeStr ''OneToMany'') ''Author'' ''Book'' ''books'' (Some ''author'')) =
     Inl (ValueError (MultipleReverse (''ManyToOne'', ''Book'', ''Author'', ''author'', ''books'')))"
    using second_reverse_raises[of "ModeStr ''OneToMany''" "''OneToMany''" "''Author''" "Some ''author''"
        "''author''" "''ManyToOne''" "[?f, ?b]" "''Book''" "''books''" ?fr] h1 by blast
  have i2: "init (registry_after [?f]) (ModeStr ''OneToMany'') ''Author'' ''Book'' ''books'' (Some ''author'') =
      (registry_after [?f, ?b], Inr ?br)"
    unfolding two one by (simp add: registry_eval)
  have h2: "get_reverse_key ?br = Inr (''ManyToOne'', ''Book'', ''Author'', Some ''author'', ''books'') \<and>
      registry_get (registry_after [?f]) (''ManyToOne'', ''Book'', ''Author'', Some ''author'', ''books'') =
        Some (?fr\<lparr>reverse_created := False\<rparr>)"
    unfolding one by (simp add: registry_eval)
  have h3: "map_of (registry_after [?f, ?b]) (''ManyToOne'', ''Book'', ''Author'', ''author'', ''books'') = Some ?fr \<and>
      reverse_created ?fr"
    unfolding two by simp
  have c3: "\<exists>r1. map_of (fst (init (registry_after [?f, ?b]) (ModeStr ''ManyToOne'') ''Book'' ''Author'' ''author'' (Some ''books'')))
      (''ManyToOne'', ''Book'', ''Author'', ''author'', ''books'') = Some r1 \<and> reverse_created r1"
    using second_reverse_raises[of "ModeStr ''ManyToOne''" _ "''Book''" "Some ''books''" _ _ "[?f, ?b]"
        "''Author''" "''author''" _ _ _ _ _ "(''ManyToOne'', ''Book'', ''Author'', ''author'', ''books'')" ?fr] h3
    by blast
  show ?thesis using h1 c1 h2 i2 c3 by simp
qed

text \<open>
  C2, as stated, fails: a record whose reverse key is its own key finds itself in the
  registry, is marked and the constructor raises, with nothing registered before.
\<close>

theorem self_reverse_counterexample:
  "init [] (ModeStr ''OneToOne'') ''A'' ''A'' ''f'' (Some ''f'') =
     ([((''OneToOne'', ''A'', ''A'', ''f'', ''f''),
        \<lparr>mode = ''OneToOne'', modelA = ''A'', modelB = ''A'', fieldA = ''f'',
           fieldB = Some ''f'', reverse_created = True\<rparr>)],
      Inl (ValueError (MultipleReverse (''OneToOne'', ''A'', ''A'', ''f'', ''f''))))"
  by (simp add: registry_eval)

text \<open>
  C2, amended. For a record of a valid mode whose reverse key is not its own key: if the
  reverse key holds an unmarked record, the constructor returns, and afterwards the new
  record and the reverse record are both stored marked; if the reverse key holds no record,
  the constructor returns and the new record is stored unmarked.
\<close>

theorem reverse_resolved_on_insertion:
  assumes "convert_mode mode_in = Inr m" "default_fieldB m mA fB = Some fb" "flip_mode m = Inr fm"
    and "(fm, mB, mA, fb, fA) \<noteq> (m, mA, mB, fA, fb)"
  shows "(map_of reg (fm, mB, mA, fb, fA) = Some rv \<and> \<not> reverse_created rv \<longrightarrow>
            (\<exists>reg'. init reg mode_in mA mB fA fB =
                 (reg', Inr (new_record m mA mB fA (Some fb)\<lparr>reverse_created := True\<rparr>)) \<and>
               map_of reg' (m, mA, mB, fA, fb) =
                 Some (new_record m mA mB fA (Some fb)\<lparr>reverse_created := True\<rparr>) \<and>
               map_of reg' (fm, mB, mA, fb, fA) = Some (rv\<lparr>reverse_created := True\<rparr>))) \<and>
         (map_of reg (fm, mB, mA, fb, fA) = None \<longrightarrow>
            (\<exists>reg'. init reg mode_in mA mB fA fB = (reg', Inr (new_record m mA mB fA (Some fb))) \<and>
               map_of reg' (m, mA, mB, fA, fb) = Some (new_record m mA mB fA (Some fb)) \<and>
               \<not> reverse_created (new_record m mA mB fA (Some fb))))"
proof -
  define k where "k = (m, mA, mB, fA, fb)"
  define rk where "rk = (fm, mB, mA, fb, fA)"
  define self where "self = new_record m mA mB fA (Some fb)"
  have ne: "rk \<noteq> k" using assms(4) unfolding k_def rk_def .
  have grk: "get_reverse_key self = Inr (fm, mB, mA, Some fb, fA)"
    unfolding self_def using assms(3) by (rule new_record_keys)
  have ak: "as_key (fm, mB, mA, Some fb, fA) = Some rk" unfolding rk_def by (rule new_record_keys)
  have i: "init reg mode_in mA mB fA fB = check_for_reverse (AList.update k self reg) k self"
    unfolding k_def self_def using assms(1,2) by (rule init_stored)
  have same: "map_of (AList.update k self reg) rk = map_of reg rk"
    using ne by (simp add: update_conv')
  have 1: "\<exists>reg'. init reg mode_in mA mB fA fB = (reg', Inr (self\<lparr>reverse_created := True\<rparr>)) \<and>
               map_of reg' k = Some (self\<lparr>reverse_created := True\<rparr>) \<and>
               map_of reg' rk = Some (rv\<lparr>reverse_created := True\<rparr>)"
    if "map_of reg rk = Some rv \<and> \<not> reverse_created rv"
  proof -
    have "map_of (AList.update k self reg) rk = Some rv" using that same by simp
    from check_for_reverse_unmarked[OF grk ak this ne] that
    show ?thesis unfolding i using ne by (simp add: update_conv')
  qed
  have 2: "\<exists>reg'. init reg mode_in mA mB fA fB = (reg', Inr self) \<and>
               map_of reg' k = Some self \<and> \<not> reverse_created self"
    if "map_of reg rk = None"
  proof -
    have "map_of (AList.update k self reg) rk = None" using that same by simp
    from check_for_reverse_absent[OF grk ak this]
    show ?thesis unfolding i by (simp add: update_conv' self_def new_record_def)
  qed
  show ?thesis using 1 2 unfolding k_def rk_def self_def by blast
qed

theorem reverse_resolved_on_insertion_witness:
  "init [((''ManyToOne'', ''Book'', ''Author'', ''author'', ''books''),
          \<lparr>mode = ''ManyToOne'', modelA = ''Book'', modelB = ''Author'', fieldA = ''author'',
             fieldB = Some ''books'', reverse_created = False\<rparr>)]
      (ModeStr ''OneToMany'') ''Author'' ''Book'' ''books'' (Some ''author'') =
     ([((''ManyToOne'', ''Book'', ''Author'', ''author'', ''books''),
          \<lparr>mode = ''ManyToOne'', modelA = ''Book'', modelB = ''Author'', fieldA = ''author'',
             fieldB = Some ''books'', reverse_created = True\<rparr>),
       ((''OneToMany'', ''Author'', ''Book'', ''books'', ''author''),
          \<lparr>mode = ''OneToMany'', modelA = ''Author'', modelB = ''Book'', fieldA = ''books'',
             fieldB = Some ''author'', reverse_created = True\<rparr>)],
      Inr \<lparr>mode = ''OneToMany'', modelA = ''Author'', modelB = ''Book'', fieldA = ''books'',
             fieldB = Some ''author'', reverse_created = True\<rparr>) \<and>
   snd (init [] (ModeStr ''OneToMany'') ''Author'' ''Book'' ''books'' (Some ''author'')) =
      Inr \<lparr>mode = ''OneToMany'', modelA = ''Author'', modelB = ''Book'', fieldA = ''books'',
             fieldB = Some ''author'', reverse_created = False\<rparr>"
proof -
  have h: "convert_mode (ModeStr ''OneToMany'') = Inr ''OneToMany''"
    "default_fieldB ''OneToMany'' ''Author'' (Some ''author'') = Some ''author''"
    "flip_mode ''OneToMany'' = Inr ''ManyToOne''"
    "(''ManyToOne'', ''Book'', ''Author'', ''author'', ''books'') \<noteq>
       (''OneToMany'', ''Author'', ''Book'', ''books'', ''author'')"
    by (simp_all add: convert_mode_def default_fieldB_def flip_mode_def mode_defs)
  let ?fr = "\<lparr>mode = ''ManyToOne'', modelA = ''Book'', modelB = ''Author'', fieldA = ''author'',
             fieldB = Some ''books'', reverse_created = False\<rparr>"
  have a: "map_of [((''ManyToOne'', ''Book'', ''Author'', ''author'', ''books''), ?fr)]
       (''ManyToOne'', ''Book'', ''Author'', ''author'', ''books'') = Some ?fr \<and> \<not> reverse_created ?fr"
    by simp
  have b: "map_of ([] :: registry) (''ManyToOne'', ''Book'', ''Author'', ''author'', ''books'') = None"
    by simp
  from reverse_resolved_on_insertion[OF h, of "[((''ManyToOne'', ''Book'', ''Author'', ''author'', ''books''), ?fr)]" ?fr] a
  obtain reg' where 1: "init [((''ManyToOne'', ''Book'', ''Author'', ''author'', ''books''), ?fr)]
      (ModeStr ''OneToMany'') ''Author'' ''Book'' ''books'' (Some ''author'') =
        (reg', Inr (new_record ''OneToMany'' ''Author'' ''Book'' ''books'' (Some ''author'')\<lparr>reverse_created := True\<rparr>))"
    by blast
  from reverse_resolved_on_insertion[OF h, of "[]"] b
  obtain reg'' where 2: "init [] (ModeStr ''OneToMany'') ''Author'' ''Book'' ''books'' (Some ''author'') =
        (reg'', Inr (new_record ''OneToMany'' ''Author'' ''Book'' ''books'' (Some ''author'')))"
    by blast
  have 3: "fst (init [((''ManyToOne'', ''Book'', ''Author'', ''author'', ''books''), ?fr)]
      (ModeStr ''OneToMany'') ''Author'' ''Book'' ''books'' (Some ''author'')) =
     [((''ManyToOne'', ''Book'', ''Author'', ''author'', ''books''), ?fr\<lparr>reverse_created := True\<rparr>),
       ((''OneToMany'', ''Author'', ''Book'', ''books'', ''author''),
          \<lparr>mode = ''OneToMany'', modelA = ''Author'', modelB = ''Book'', fieldA = ''books'',
             fieldB = Some ''author'', reverse_created = True\<rparr>)]"
    by (simp add: registry_eval)
  show ?thesis using 1 2 3 by (simp add: new_record_def prod_eq_iff)
qed

text \<open>
  C6. A constructor call that returns leaves the new record in the registry under the tuple
  of its own five attributes, which is what \<^verbatim>\<open>get_key\<close> returns for it. In every
  registry state a program can reach, each record is stored under its own key, and no key
  occurs twice.
\<close>

theorem stored_under_own_key:
  "(init (registry_after calls) mode_in mA mB fA fB = (reg', Inr r) \<longrightarrow>
      (\<exists>fb. get_key r = Inr (mode r, modelA r, modelB r, fieldA r, fb) \<and>
            map_of reg' (mode r, modelA r, modelB r, fieldA r, fb) = Some r)) \<and>
   (\<forall>k r. map_of (registry_after calls) k = Some r \<longrightarrow> get_key r = Inr k) \<and>
   distinct (map fst (registry_after calls))"
proof (intro conjI impI allI)
  assume "init (registry_after calls) mode_in mA mB fA fB = (reg', Inr r)"
  then obtain m0 fb0 where c: "check_for_reverse
      (AList.update (m0, mA, mB, fA, fb0) (new_record m0 mA mB fA (Some fb0)) (registry_after calls))
      (m0, mA, mB, fA, fb0) (new_record m0 mA mB fA (Some fb0)) = (reg', Inr r)"
    by (blast elim: init_Inr)
  define k where "k = (m0, mA, mB, fA, fb0)"
  define self where "self = new_record m0 mA mB fA (Some fb0)"
  have st: "map_of (AList.update k self (registry_after calls)) k = Some self"
    by (simp add: update_conv')
  obtain b where b: "map_of reg' k = Some (self\<lparr>reverse_created := b\<rparr>)" "r = self\<lparr>reverse_created := b\<rparr>"
    using check_for_reverse_stored[OF st c[folded k_def self_def]] by blast
  have "get_key r = Inr (mode r, modelA r, modelB r, fieldA r, fb0)"
    "(mode r, modelA r, modelB r, fieldA r, fb0) = k"
    using b(2) by (simp_all add: self_def new_record_def get_key_def k_def)
  then show "\<exists>fb. get_key r = Inr (mode r, modelA r, modelB r, fieldA r, fb) \<and>
            map_of reg' (mode r, modelA r, modelB r, fieldA r, fb) = Some r"
    using b by (intro exI[of _ fb0]) simp
next
  fix k r assume "map_of (registry_after calls) k = Some r"
  then show "get_key r = Inr k" using registry_ok_after registry_ok_key by blast
next
  show "distinct (map fst (registry_after calls))" by (rule distinct_after)
qed

theorem stored_under_own_key_witness:
  "init (registry_after [(ModeStr ''ManyToOne'', ''Book'', ''Author'', ''author'', Some ''books'')])
      (ModeStr ''OneToMany'') ''Author'' ''Book'' ''books'' (Some ''author'') =
     ([((''ManyToOne'', ''Book'', ''Author'', ''author'', ''books''),
          \<lparr>mode = ''ManyToOne'', modelA = ''Book'', modelB = ''Author'', fieldA = ''author'',
             fieldB = Some ''books'', reverse_created = True\<rparr>),
       ((''OneToMany'', ''Author'', ''Book'', ''books'', ''author''),
          \<lparr>mode = ''OneToMany'', modelA = ''Author'', modelB = ''Book'', fieldA = ''books'',
             fieldB = Some ''author'', reverse_created = True\<rparr>)],
      Inr \<lparr>mode = ''OneToMany'', modelA = ''Author'', modelB = ''Book'', fieldA = ''books'',
             fieldB = Some ''author'', reverse_created = True\<rparr>) \<and>
   (\<exists>fb. map_of [((''ManyToOne'', ''Book'', ''Author'', ''author'', ''books''),
          \<lparr>mode = ''ManyToOne'', modelA = ''Book'', modelB = ''Author'', fieldA = ''author'',
             fieldB = Some ''books'', reverse_created = True\<rparr>),
       ((''OneToMany'', ''Author'', ''Book'', ''books'', ''author''),
          \<lparr>mode = ''OneToMany'', modelA = ''Author'', modelB = ''Book'', fieldA = ''books'',
             fieldB = Some ''author'', reverse_created = True\<rparr>)]
      (''OneToMany'', ''Author'', ''Book'', ''books'', fb) =
     Some \<lparr>mode = ''OneToMany'', modelA = ''Author'', modelB = ''Book'', fieldA = ''books'',
             fieldB = Some ''author'', reverse_created = True\<rparr>) \<and>
   get_key \<lparr>mode = ''ManyToOne'', modelA = ''Book'', modelB = ''Author'', fieldA = ''author'',
             fieldB = Some ''books'', reverse_created = False\<rparr> =
     Inr (''ManyToOne'', ''Book'', ''Author'', ''author'', ''books'')"
proof -
  let ?f = "(ModeStr ''ManyToOne'', ''Book'', ''Author'', ''author'', Some ''books'')"
  let ?fr = "\<lparr>mode = ''ManyToOne'', modelA = ''Book'', modelB = ''Author'', fieldA = ''author'',
             fieldB = Some ''books'', reverse_created = False\<rparr>"
  let ?br = "\<lparr>mode = ''OneToMany'', modelA = ''Author'', modelB = ''Book'', fieldA = ''books'',
             fieldB = Some ''author'', reverse_created = True\<rparr>"
  let ?reg' = "[((''ManyToOne'', ''Book'', ''Author'', ''author'', ''books''), ?fr\<lparr>reverse_created := True\<rparr>),
       ((''OneToMany'', ''Author'', ''Book'', ''books'', ''author''), ?br)]"
  have one: "registry_after [?f] = [((''ManyToOne'', ''Book'', ''Author'', ''author'', ''books''), ?fr)]"
    by (simp add: registry_eval)
  have i: "init (registry_after [?f]) (ModeStr ''OneToMany'') ''Author'' ''Book'' ''books'' (Some ''author'') =
      (?reg', Inr ?br)"
    unfolding one by (simp add: registry_eval)
  have m: "map_of (registry_after [?f]) (''ManyToOne'', ''Book'', ''Author'', ''author'', ''books'') = Some ?fr"
    unfolding one by simp
  note t = stored_under_own_key[of "[?f]" "ModeStr ''OneToMany''" "''Author''" "''Book''" "''books''"
      "Some ''author''" ?reg' ?br]
  from t i have "\<exists>fb. get_key ?br = Inr (mode ?br, modelA ?br, modelB ?br, fieldA ?br, fb) \<and>
            map_of ?reg' (mode ?br, modelA ?br, modelB ?br, fieldA ?br, fb) = Some ?br"
    by blast
  then have 1: "\<exists>fb. map_of ?reg' (''OneToMany'', ''Author'', ''Book'', ''books'', fb) = Some ?br"
    by auto
  from t m have 2: "get_key ?fr = Inr (''ManyToOne'', ''Book'', ''Author'', ''author'', ''books'')"
    by blast
  show ?thesis using i 1 2 by simp
qed

text \<open>
  C8. With no reverse field name given, the constructor fills one in: the lowercased name of
  model A for a one-to-one relationship, that name followed by \<open>_set\<close> for the three other
  modes. For each valid mode the record is stored, and returned if the call returns, with
  that name as its \<^verbatim>\<open>fieldB\<close>, never \<^verbatim>\<open>None\<close>.
\<close>

theorem default_reverse_field_name:
  assumes "convert_mode mode_in = Inr m" "valid_mode m"
    and "init reg mode_in mA mB fA None = (reg', res)"
  shows "default_fieldB ONE_TO_ONE mA None = Some (lower mA) \<and>
         default_fieldB ONE_TO_MANY mA None = Some (lower mA @ ''_set'') \<and>
         default_fieldB MANY_TO_ONE mA None = Some (lower mA @ ''_set'') \<and>
         default_fieldB MANY_TO_MANY mA None = Some (lower mA @ ''_set'') \<and>
         (\<exists>fb b. fb = (if m = ONE_TO_ONE then lower mA else lower mA @ ''_set'') \<and>
            map_of reg' (m, mA, mB, fA, fb) =
              Some \<lparr>mode = m, modelA = mA, modelB = mB, fieldA = fA, fieldB = Some fb,
                     reverse_created = b\<rparr> \<and>
            (\<forall>r. res = Inr r \<longrightarrow> fieldB r = Some fb))"
proof -
  define fb where "fb = (if m = ONE_TO_ONE then lower mA else lower mA @ ''_set'')"
  have d: "default_fieldB m mA None = Some fb"
    using assms(2) by (auto simp: default_fieldB_def valid_mode_def fb_def)
  define k where "k = (m, mA, mB, fA, fb)"
  define self where "self = new_record m mA mB fA (Some fb)"
  have i: "check_for_reverse (AList.update k self reg) k self = (reg', res)"
    using init_stored[OF assms(1) d, of reg mB fA] assms(3) unfolding k_def self_def by simp
  have st: "map_of (AList.update k self reg) k = Some self" by (simp add: update_conv')
  obtain b where b: "map_of reg' k = Some (self\<lparr>reverse_created := b\<rparr>)"
    "\<forall>r. res = Inr r \<longrightarrow> r = self\<lparr>reverse_created := b\<rparr>"
    using check_for_reverse_stored[OF st i] by blast
  have "map_of reg' (m, mA, mB, fA, fb) =
              Some \<lparr>mode = m, modelA = mA, modelB = mB, fieldA = fA, fieldB = Some fb,
                     reverse_created = b\<rparr>"
    using b(1) by (simp add: k_def self_def new_record_def)
  moreover have "\<forall>r. res = Inr r \<longrightarrow> fieldB r = Some fb"
    using b(2) by (auto simp: self_def new_record_def)
  ultimately have "\<exists>fb b. fb = (if m = ONE_TO_ONE then lower mA else lower mA @ ''_set'') \<and>
            map_of reg' (m, mA, mB, fA, fb) =
              Some \<lparr>mode = m, modelA = mA, modelB = mB, fieldA = fA, fieldB = Some fb,
                     reverse_created = b\<rparr> \<and>
            (\<forall>r. res = Inr r \<longrightarrow> fieldB r = Some fb)"
    unfolding fb_def by blast
  moreover have "default_fieldB ONE_TO_ONE mA None = Some (lower mA)"
    "default_fieldB ONE_TO_MANY mA None = Some (lower mA @ ''_set'')"
    "default_fieldB MANY_TO_ONE mA None = Some (lower mA @ ''_set'')"
    "default_fieldB MANY_TO_MANY mA None = Some (lower mA @ ''_set'')"
    by (simp_all add: default_fieldB_def mode_defs)
  ultimately show ?thesis by blast
qed

theorem default_reverse_field_name_witness:
  "valid_mode ''ManyToOne'' \<and>
   init [] (ModeStr ''ManyToOne'') ''Book'' ''Author'' ''author'' None =
     ([((''ManyToOne'', ''Book'', ''Author'', ''author'', ''book_set''),
        \<lparr>mode = ''ManyToOne'', modelA = ''Book'', modelB = ''Author'', fieldA = ''author'',
           fieldB = Some ''book_set'', reverse_created = False\<rparr>)],
      Inr \<lparr>mode = ''ManyToOne'', modelA = ''Book'', modelB = ''Author'', fieldA = ''author'',
           fieldB = Some ''book_set'', reverse_created = False\<rparr>) \<and>
   default_fieldB ''OneToOne'' ''Book'' None = Some ''book''"
proof -
  have v: "valid_mode ''ManyToOne''" by (simp add: valid_mode_def mode_defs)
  have c: "convert_mode (ModeStr ''ManyToOne'') = Inr ''ManyToOne''" by (simp add: convert_mode_def)
  have l: "lower ''Book'' = ''book''" by (simp add: lower_def lower_char_def)
  obtain reg' res where i: "init [] (ModeStr ''ManyToOne'') ''Book'' ''Author'' ''author'' None = (reg', res)"
    by fastforce
  note t = default_reverse_field_name[OF c v i]
  from t have o: "default_fieldB ''OneToOne'' ''Book'' None = Some ''book''"
    by (simp add: l mode_defs)
  from t have "\<exists>b. map_of reg' (''ManyToOne'', ''Book'', ''Author'', ''author'', ''book_set'') =
      Some \<lparr>mode = ''ManyToOne'', modelA = ''Book'', modelB = ''Author'', fieldA = ''author'',
           fieldB = Some ''book_set'', reverse_created = b\<rparr>"
    by (simp add: l mode_defs)
  moreover have "init [] (ModeStr ''ManyToOne'') ''Book'' ''Author'' ''author'' None =
     ([((''ManyToOne'', ''Book'', ''Author'', ''author'', ''book_set''),
        \<lparr>mode = ''ManyToOne'', modelA = ''Book'', modelB = ''Author'', fieldA = ''author'',
           fieldB = Some ''book_set'', reverse_created = False\<rparr>)],
      Inr \<lparr>mode = ''ManyToOne'', modelA = ''Book'', modelB = ''Author'', fieldA = ''author'',
           fieldB = Some ''book_set'', reverse_created = False\<rparr>)"
    by (simp add: registry_eval l)
  ultimately show ?thesis using v o by simp
qed

text \<open>
  C5. \<^verbatim>\<open>get_django_lookup\<close> maps \<^verbatim>\<open>OneToOne[M]\<close> to a lookup of the one-to-one field,
  \<^verbatim>\<open>ManyToOne[M]\<close>, a bare model class and a bare string to a lookup of the foreign key,
  \<^verbatim>\<open>ManyToMany[M]\<close> to a lookup of the many-to-many field and \<^verbatim>\<open>OneToMany[M]\<close> to a
  lookup of the stand-in, each with \<^verbatim>\<open>to\<close> the model referred to: \<open>M\<close> itself, written
  \<open>self\<close> when \<open>M\<close> is \<^verbatim>\<open>Self\<close>, and by its name when a manager's argument is a forward
  reference.
\<close>

theorem relationship_kind_from_shape:
  "get_django_lookup lr (OneToOne M) =
     Inr (Some \<lparr>field = OneToOneField, default_key = ''related_name'',
                 default_kwargs = [(''to'', KTo (fix_self M)), (''on_delete'', KCascade)]\<rparr>) \<and>
   get_django_lookup lr (ManyToOne M) =
     Inr (Some \<lparr>field = ForeignKey, default_key = ''related_name'',
                 default_kwargs = [(''on_delete'', KCascade), (''to'', KTo (fix_self M))]\<rparr>) \<and>
   get_django_lookup lr (ModelClass n) =
     Inr (Some \<lparr>field = ForeignKey, default_key = ''related_name'',
                 default_kwargs = [(''on_delete'', KCascade), (''to'', KTo (ModelClass n))]\<rparr>) \<and>
   get_django_lookup lr (Str s) =
     Inr (Some \<lparr>field = ForeignKey, default_key = ''related_name'',
                 default_kwargs = [(''on_delete'', KCascade), (''to'', KTo (fix_self (Str s)))]\<rparr>) \<and>
   get_django_lookup lr (Generic ManyToMany (M # Ms)) =
     Inr (Some \<lparr>field = ManyToManyField, default_key = ''related_name'',
                 default_kwargs =
                   [(''to'', KTo (fix_self (case M of ForwardRef n \<Rightarrow> Str n | _ \<Rightarrow> M)))]\<rparr>) \<and>
   get_django_lookup lr (Generic OneToMany (M # Ms)) =
     Inr (Some \<lparr>field = OneToManyFieldStandIn, default_key = ''related_name'',
                 default_kwargs =
                   [(''to'', KTo (fix_self (case M of ForwardRef n \<Rightarrow> Str n | _ \<Rightarrow> M)))]\<rparr>) \<and>
   fix_self M = (if M = Self \<or> M = Str ''Self'' then Str ''self'' else M)"
proof (intro conjI)
  show "get_django_lookup lr (OneToOne M) =
     Inr (Some \<lparr>field = OneToOneField, default_key = ''related_name'',
                 default_kwargs = [(''to'', KTo (fix_self M)), (''on_delete'', KCascade)]\<rparr>)"
    by (simp add: get_django_lookup_def fix_self_def is_model_or_str_def)
  show "get_django_lookup lr (ManyToOne M) =
     Inr (Some \<lparr>field = ForeignKey, default_key = ''related_name'',
                 default_kwargs = [(''on_delete'', KCascade), (''to'', KTo (fix_self M))]\<rparr>)"
    by (simp add: get_django_lookup_def fix_self_def is_model_or_str_def)
  show "get_django_lookup lr (ModelClass n) =
     Inr (Some \<lparr>field = ForeignKey, default_key = ''related_name'',
                 default_kwargs = [(''on_delete'', KCascade), (''to'', KTo (ModelClass n))]\<rparr>)"
    by (simp add: get_django_lookup_def fix_self_def is_model_or_str_def)
  show "get_django_lookup lr (Str s) =
     Inr (Some \<lparr>field = ForeignKey, default_key = ''related_name'',
                 default_kwargs = [(''on_delete'', KCascade), (''to'', KTo (fix_self (Str s)))]\<rparr>)"
    by (simp add: get_django_lookup_def fix_self_def is_model_or_str_def)
  show "get_django_lookup lr (Generic ManyToMany (M # Ms)) =
     Inr (Some \<lparr>field = ManyToManyField, default_key = ''related_name'',
                 default_kwargs =
                   [(''to'', KTo (fix_self (case M of ForwardRef n \<Rightarrow> Str n | _ \<Rightarrow> M)))]\<rparr>)"
    by (cases M)
       (simp_all add: get_django_lookup_def fix_self_def is_model_or_str_def has_origin_def
          get_origin_def get_specialisation_name_or_type_def get_args_def)
  show "get_django_lookup lr (Generic OneToMany (M # Ms)) =
     Inr (Some \<lparr>field = OneToManyFieldStandIn, default_key = ''related_name'',
                 default_kwargs =
                   [(''to'', KTo (fix_self (case M of ForwardRef n \<Rightarrow> Str n | _ \<Rightarrow> M)))]\<rparr>)"
    by (cases M)
       (simp_all add: get_django_lookup_def fix_self_def is_model_or_str_def has_origin_def
          get_origin_def get_specialisation_name_or_type_def get_args_def)
  show "fix_self M = (if M = Self \<or> M = Str ''Self'' then Str ''self'' else M)"
    by (simp add: fix_self_def)
qed


text \<open>
  C4. On every registry the library fills, that is, on every registry reached by calls of
  \<^verbatim>\<open>register_field_object\<close>, the one place where the library calls the constructor,
  with field objects whose related name is a string or \<open>None\<close>, as declared:
  \<^verbatim>\<open>check_model_valid\<close> returns exactly the records of the registry whose \<^verbatim>\<open>modelB\<close> is
  the given name and that are not marked, each once, and the check raises nothing and
  returns one warning with id \<open>freeform.W001\<close> for each installed subclass of the typed
  model and each such record, in order. A run of the metaclass on a registry so reached
  leaves a registry so reached. The first part holds as well on every registry that calls
  of the constructor itself reach.
\<close>

theorem readiness_check_warnings:
  "((\<forall>x\<in>set fs. related_name_declared (snd (snd x))) \<longrightarrow>
      set (check_model_valid (registry_of_fields fs) model) =
        {r. r \<in> ran (map_of (registry_of_fields fs)) \<and> modelB r = model \<and> \<not> reverse_created r} \<and>
      distinct (check_model_valid (registry_of_fields fs) model) \<and>
      (\<exists>ws. reverse_foreign_key_warning all_models (registry_of_fields fs) = Inr ws \<and>
         map (\<lambda>w. (msg_obj w, msg_id w)) ws =
           concat (map (\<lambda>m.
              if is_typed_model m
              then map (\<lambda>ir. (app_label m @ ''.'' @ modelA ir @ ''.'' @ fieldA ir, ''freeform.W001''))
                     (check_model_valid (registry_of_fields fs) (model_name m))
              else []) (concat all_models)))) \<and>
   (\<exists>fs'. fst (TypedModelBase_new lr fw name annotations dct kw (registry_of_fields fs)) =
          registry_of_fields (fs @ fs')) \<and>
   set (check_model_valid (registry_after calls) model) =
      {r. r \<in> ran (map_of (registry_after calls)) \<and> modelB r = model \<and> \<not> reverse_created r} \<and>
   distinct (check_model_valid (registry_after calls) model)"
proof (intro conjI impI)
  show "set (check_model_valid (registry_of_fields fs) model) =
      {r. r \<in> ran (map_of (registry_of_fields fs)) \<and> modelB r = model \<and> \<not> reverse_created r}"
    using ran_distinct[OF distinct_of_fields, of fs] by (simp add: set_check_model_valid)
  show "distinct (check_model_valid (registry_of_fields fs) model)"
    using distinct_records[OF distinct_of_fields registry_ok_of_fields, of fs]
    by (simp add: check_model_valid_filter)
  show "\<exists>ws. reverse_foreign_key_warning all_models (registry_of_fields fs) = Inr ws \<and>
      map (\<lambda>w. (msg_obj w, msg_id w)) ws =
        concat (map (\<lambda>m.
           if is_typed_model m
           then map (\<lambda>ir. (app_label m @ ''.'' @ modelA ir @ ''.'' @ fieldA ir, ''freeform.W001''))
                  (check_model_valid (registry_of_fields fs) (model_name m))
           else []) (concat all_models))"
    using modes_valid_of_fields by (rule reverse_foreign_key_warning_valid)
  show "\<exists>fs'. fst (TypedModelBase_new lr fw name annotations dct kw (registry_of_fields fs)) =
          registry_of_fields (fs @ fs')"
    by (rule TypedModelBase_new_fields)
  show "set (check_model_valid (registry_after calls) model) =
      {r. r \<in> ran (map_of (registry_after calls)) \<and> modelB r = model \<and> \<not> reverse_created r}"
    using ran_distinct[OF distinct_after, of calls] by (simp add: set_check_model_valid)
  show "distinct (check_model_valid (registry_after calls) model)"
    using distinct_records[OF distinct_after registry_ok_after, of calls]
    by (simp add: check_model_valid_filter)
qed

theorem readiness_check_warnings_witness:
  "registry_of_fields
     [(''Book'', ''author'',
       \<lparr>fo_class = ForeignKey,
          fo_kwargs = [(''on_delete'', KCascade), (''to'', KTo (ModelClass ''Author''))]\<rparr>)] =
     [((''ManyToOne'', ''Book'', ''Author'', ''author'', ''book_set''),
       \<lparr>mode = ''ManyToOne'', modelA = ''Book'', modelB = ''Author'', fieldA = ''author'',
          fieldB = Some ''book_set'', reverse_created = False\<rparr>)] \<and>
   reverse_foreign_key_warning
     [[\<lparr>model_name = ''Author'', app_label = ''library'', is_typed_model = True\<rparr>,
       \<lparr>model_name = ''Book'', app_label = ''library'', is_typed_model = True\<rparr>],
      [\<lparr>model_name = ''Author'', app_label = ''auth'', is_typed_model = False\<rparr>]]
     (registry_of_fields
       [(''Book'', ''author'',
         \<lparr>fo_class = ForeignKey,
            fo_kwargs = [(''on_delete'', KCascade), (''to'', KTo (ModelClass ''Author''))]\<rparr>)]) =
     Inr [Warning
       (''Missing explicit reverse relationship for this foreign key. Django doesn'' @ quote @
        ''t require this, but it helps with typing.'')
       (''Expecting equivalent in Author model of '' @ quote @ ''book_set: OneToMany[Book] = related('' @
        quote @ ''author'' @ quote @ '')'' @ quote)
       ''library.Book.author''
       ''freeform.W001'']"
proof -
  let ?fs = "[(''Book'', ''author'',
       \<lparr>fo_class = ForeignKey,
          fo_kwargs = [(''on_delete'', KCascade), (''to'', KTo (ModelClass ''Author''))]\<rparr>)]"
  let ?reg = "[((''ManyToOne'', ''Book'', ''Author'', ''author'', ''book_set''),
       \<lparr>mode = ''ManyToOne'', modelA = ''Book'', modelB = ''Author'', fieldA = ''author'',
          fieldB = Some ''book_set'', reverse_created = False\<rparr>)]"
  let ?models = "[[\<lparr>model_name = ''Author'', app_label = ''library'', is_typed_model = True\<rparr>,
       \<lparr>model_name = ''Book'', app_label = ''library'', is_typed_model = True\<rparr>],
      [\<lparr>model_name = ''Author'', app_label = ''auth'', is_typed_model = False\<rparr>]]"
  have r: "registry_of_fields ?fs = ?reg"
    by (simp add: field_eval registry_eval lower_def lower_char_def)
  have d: "\<forall>x\<in>set ?fs. related_name_declared (snd (snd x))"
    by (simp add: related_name_declared_def related_name_def)
  from readiness_check_warnings[of ?fs _ ?models] d
  obtain ws where ws: "reverse_foreign_key_warning ?models (registry_of_fields ?fs) = Inr ws"
    by blast
  have "reverse_foreign_key_warning ?models ?reg =
     Inr [Warning
       (''Missing explicit reverse relationship for this foreign key. Django doesn'' @ quote @
        ''t require this, but it helps with typing.'')
       (''Expecting equivalent in Author model of '' @ quote @ ''book_set: OneToMany[Book] = related('' @
        quote @ ''author'' @ quote @ '')'' @ quote)
       ''library.Book.author''
       ''freeform.W001'']"
    by (simp add: reverse_foreign_key_warning_def warnings_of_model_def check_model_valid_def
        warning_for_def reverse_mode_def flip_mode_def mode_defs str_of_optional_def)
  then show ?thesis using r ws by simp
qed

text \<open>
  C3, as stated, fails in its first part: an attribute that already has a field object in
  the class dictionary is skipped, whatever its hint.
\<close>

theorem assigned_field_counterexample:
  "is_snake_case ''kind'' \<and>
   get_django_lookup types_to_fields (Class ''Colour'') = Inr None \<and>
   TypedModelBase_new types_to_fields (\<lambda>c kw. None) ''Paint'' [(''kind'', Class ''Colour'')]
     [(''kind'', VField \<lparr>fo_class = OtherField ''CharField'', fo_kwargs = [(''max_length'', KInt 3)]\<rparr>)]
     [] [] =
   ([], Inr [(''kind'', VField \<lparr>fo_class = OtherField ''CharField'',
                                    fo_kwargs = [(''max_length'', KInt 3)]\<rparr>)])"
  by (simp add: lookup_eval step_eval)

text \<open>
  C3, amended. For a snake-case attribute whose value in the class dictionary is absent,
  false or a string, and whose hint, the union taken off, has no lookup, the round of the
  loop raises the \<^verbatim>\<open>ValueError\<close> of the unknown hint, and so does \<^verbatim>\<open>__new__\<close> when the
  attributes before it raised nothing. A plain class has a lookup exactly when it is
  registered. \<^verbatim>\<open>str_to_mode\<close> raises \<^verbatim>\<open>ValueError\<close> for every string that is none of the
  four modes, and \<^verbatim>\<open>field_type_to_mode\<close> for every class that is a subclass of none of
  the four relation classes.
\<close>

theorem unknown_hint_and_mode_raise:
  "(is_snake_case variable \<and>
    ((\<exists>s. dict_get dct1 variable = VStr s) \<or> \<not> truthy (dict_get dct1 variable)) \<and>
    strip_union field_type = Inr (t, null) \<and> get_django_lookup lr t = Inr None \<longrightarrow>
      new_step lr fw name variable field_type dct1 reg1 =
        (reg1, Inl (ValueError (NoDefaultField variable))) \<and>
      (new_loop lr fw name before dct reg = (reg1, Inr dct1) \<longrightarrow>
         TypedModelBase_new lr fw name (before @ (variable, field_type) # after) dct kw reg =
           (reg1, Inl (ValueError (NoDefaultField variable))))) \<and>
   get_django_lookup lr (Class n) = Inr (map_of lr (Class n)) \<and>
   (\<not> valid_mode m \<longrightarrow> str_to_mode m = Inl (ValueError (UnknownMode m))) \<and>
   (\<not> sub_ForeignKey c \<and> \<not> sub_ManyToManyField c \<and> \<not> sub_OneToOneField c \<and>
    \<not> sub_OneToManyFieldStandIn c \<longrightarrow> field_type_to_mode c = Inl (ValueError UnknownFieldType))"
proof (intro conjI impI)
  show "get_django_lookup lr (Class n) = Inr (map_of lr (Class n))"
    by (simp add: lookup_eval)
  show "str_to_mode m = Inl (ValueError (UnknownMode m))" if "\<not> valid_mode m"
    using that by (simp add: str_to_mode_def valid_mode_def)
  show "field_type_to_mode c = Inl (ValueError UnknownFieldType)"
    if "\<not> sub_ForeignKey c \<and> \<not> sub_ManyToManyField c \<and> \<not> sub_OneToOneField c \<and>
        \<not> sub_OneToManyFieldStandIn c"
    using that by (simp add: field_type_to_mode_def)
next
  assume a: "is_snake_case variable \<and>
    ((\<exists>s. dict_get dct1 variable = VStr s) \<or> \<not> truthy (dict_get dct1 variable)) \<and>
    strip_union field_type = Inr (t, null) \<and> get_django_lookup lr t = Inr None"
  then show s: "new_step lr fw name variable field_type dct1 reg1 =
        (reg1, Inl (ValueError (NoDefaultField variable)))"
    by (simp add: new_step_processed)
  assume "new_loop lr fw name before dct reg = (reg1, Inr dct1)"
  then show "TypedModelBase_new lr fw name (before @ (variable, field_type) # after) dct kw reg =
           (reg1, Inl (ValueError (NoDefaultField variable)))"
    using s by (simp add: TypedModelBase_new_def new_loop_append)
qed

theorem unknown_hint_and_mode_raise_witness:
  "is_snake_case ''shade'' \<and> \<not> truthy (dict_get [] ''shade'') \<and>
   strip_union (UnionType [Class ''Colour'', NoneType]) = Inr (Class ''Colour'', True) \<and>
   get_django_lookup types_to_fields (Class ''Colour'') = Inr None \<and>
   new_loop types_to_fields (\<lambda>c kw. None) ''Paint'' [(''name'', Class ''str'')] [] [] =
     ([], Inr [(''name'', VField \<lparr>fo_class = OtherField ''CharField'',
                                    fo_kwargs = [(''max_length'', KInt 255)]\<rparr>)]) \<and>
   TypedModelBase_new types_to_fields (\<lambda>c kw. None) ''Paint''
     [(''name'', Class ''str''), (''shade'', UnionType [Class ''Colour'', NoneType])] [] [] [] =
     ([], Inl (ValueError (NoDefaultField ''shade''))) \<and>
   \<not> valid_mode ''Sideways'' \<and> str_to_mode ''Sideways'' = Inl (ValueError (UnknownMode ''Sideways'')) \<and>
   field_type_to_mode \<lparr>sub_ForeignKey = False, sub_ManyToManyField = False,
      sub_OneToOneField = False, sub_OneToManyFieldStandIn = False\<rparr> =
     Inl (ValueError UnknownFieldType)"
proof -
  let ?dct1 = "[(''name'', VField \<lparr>fo_class = OtherField ''CharField'',
                                    fo_kwargs = [(''max_length'', KInt 255)]\<rparr>)]"
  have h1: "is_snake_case ''shade''" by (simp add: step_eval)
  have h2: "\<not> truthy (dict_get ?dct1 ''shade'')" "\<not> truthy (dict_get [] ''shade'')"
    by (simp_all add: step_eval)
  have h3: "strip_union (UnionType [Class ''Colour'', NoneType]) = Inr (Class ''Colour'', True)"
    by (simp add: step_eval get_args_def)
  have h4: "get_django_lookup types_to_fields (Class ''Colour'') = Inr None"
    by (simp add: lookup_eval)
  have h5: "new_loop types_to_fields (\<lambda>c kw. None) ''Paint'' [(''name'', Class ''str'')] [] [] = ([], Inr ?dct1)"
    by (simp add: lookup_eval step_eval)
  have h6: "\<not> valid_mode ''Sideways''" by (simp add: valid_mode_def mode_defs)
  note t = unknown_hint_and_mode_raise[of "''shade''" ?dct1 "UnionType [Class ''Colour'', NoneType]"
      "Class ''Colour''" True types_to_fields "\<lambda>c kw. None" "''Paint''" "[]" "[(''name'', Class ''str'')]" "[]" "[]"
      "[]" "[]" "''Colour''" "''Sideways''"
      "\<lparr>sub_ForeignKey = False, sub_ManyToManyField = False,
         sub_OneToOneField = False, sub_OneToManyFieldStandIn = False\<rparr>"]
  from t h1 h2 h3 h4 h5 have "TypedModelBase_new types_to_fields (\<lambda>c kw. None) ''Paint''
     ([(''name'', Class ''str'')] @ [(''shade'', UnionType [Class ''Colour'', NoneType])]) [] [] [] =
     ([], Inl (ValueError (NoDefaultField ''shade'')))"
    by blast
  moreover from t h6 have "str_to_mode ''Sideways'' = Inl (ValueError (UnknownMode ''Sideways''))"
    by blast
  moreover from t have "field_type_to_mode \<lparr>sub_ForeignKey = False, sub_ManyToManyField = False,
      sub_OneToOneField = False, sub_OneToManyFieldStandIn = False\<rparr> =
     Inl (ValueError UnknownFieldType)"
    by simp
  ultimately show ?thesis using h1 h2 h3 h4 h5 h6 by simp
qed




text \<open>
  C10, as stated, fails for one name: \<open>Meta\<close> is not in snake case, and with class
  keywords given \<^verbatim>\<open>__new__\<close> replaces its entry by the class built from the keywords.
\<close>

theorem meta_counterexample:
  "is_snake_case ''Meta'' = False \<and>
   TypedModelBase_new types_to_fields (\<lambda>c kw. None) ''Thing'' [(''Meta'', Class ''int'')]
     [(''Meta'', VOther True)] [(''abstract'', KBool True)] [] =
   ([], Inr [(''Meta'', VMeta [(''abstract'', KBool True)])])"
  by (simp add: step_eval)

text \<open>
  C10, amended. A capital letter or a digit is neither a lowercase letter nor an
  underscore. For a name with a character that is neither, \<^verbatim>\<open>is_snake_case\<close> is false,
  the round of the loop changes neither the class dictionary nor the registry, no entry of
  the registry for this class and this attribute is new after \<^verbatim>\<open>__new__\<close>, and the entry
  of the name in the class dictionary is after \<^verbatim>\<open>__new__\<close> what it was before, unless the
  name is \<open>Meta\<close> and class keywords are given: then the entry of \<open>Meta\<close> is the class
  built from the keywords.
\<close>

theorem non_snake_case_untouched:
  "(c \<in> set ''ABCDEFGHIJKLMNOPQRSTUVWXYZ0123456789'' \<longrightarrow> \<not> (islower c \<or> c = CHR ''_'')) \<and>
   ((\<exists>c\<in>set variable. \<not> (islower c \<or> c = CHR ''_'')) \<longrightarrow>
      is_snake_case variable = False \<and>
      new_step lr fw name variable ft dct reg = (reg, Inr dct) \<and>
      (TypedModelBase_new lr fw name annotations dct kw reg = (reg', Inr dct') \<and>
       (kw = [] \<or> variable \<noteq> ''Meta'') \<longrightarrow> map_of dct' variable = map_of dct variable) \<and>
      (map_of (fst (TypedModelBase_new lr fw name annotations dct kw reg)) (m, name, b, variable, fb) \<noteq> None \<longrightarrow>
         map_of reg (m, name, b, variable, fb) \<noteq> None)) \<and>
   (kw \<noteq> [] \<and> TypedModelBase_new lr fw name annotations dct kw reg = (reg', Inr dct') \<longrightarrow>
      map_of dct' ''Meta'' = Some (VMeta kw))"
proof (intro conjI impI)
  show "\<not> (islower c \<or> c = CHR ''_'')" if "c \<in> set ''ABCDEFGHIJKLMNOPQRSTUVWXYZ0123456789''"
    using that by (auto simp: islower_def)
next
  assume "\<exists>c\<in>set variable. \<not> (islower c \<or> c = CHR ''_'')"
  then have ns: "\<not> is_snake_case variable" by (rule not_snake_case)
  then show "is_snake_case variable = False" by simp
  show "new_step lr fw name variable ft dct reg = (reg, Inr dct)"
    using ns by (rule new_step_not_snake)
  {
    assume a: "TypedModelBase_new lr fw name annotations dct kw reg = (reg', Inr dct') \<and>
       (kw = [] \<or> variable \<noteq> ''Meta'')"
    then obtain dct1 where l: "new_loop lr fw name annotations dct reg = (reg', Inr dct1)"
      and d: "dct' = (if kw \<noteq> [] then AList.update ''Meta'' (VMeta kw) dct1 else dct1)"
      by (auto simp: TypedModelBase_new_def split: prod.splits sum.splits)
    have "map_of dct1 variable = map_of dct variable" using ns l by (rule new_loop_not_snake)
    then show "map_of dct' variable = map_of dct variable"
      using a d by (auto simp: update_conv')
  }
  {
    assume "map_of (fst (TypedModelBase_new lr fw name annotations dct kw reg)) (m, name, b, variable, fb) \<noteq> None"
    then have "map_of (fst (new_loop lr fw name annotations dct reg)) (m, name, b, variable, fb) \<noteq> None"
      by (auto simp: TypedModelBase_new_def split: prod.splits sum.splits)
    from new_loop_new_keys[OF this] show "map_of reg (m, name, b, variable, fb) \<noteq> None"
      using ns by auto
  }
next
  assume "kw \<noteq> [] \<and> TypedModelBase_new lr fw name annotations dct kw reg = (reg', Inr dct')"
  then show "map_of dct' ''Meta'' = Some (VMeta kw)"
    by (auto simp: TypedModelBase_new_def update_conv' split: prod.splits sum.splits)
qed


theorem non_snake_case_untouched_witness:
  "CHR ''M'' \<in> set ''MAX_SIZE'' \<and> is_snake_case ''MAX_SIZE'' = False \<and>
   TypedModelBase_new types_to_fields (\<lambda>c kw. None) ''Paint''
     [(''MAX_SIZE'', Class ''int''), (''size'', Class ''int'')] [(''MAX_SIZE'', VOther False)] []
     [((''ManyToOne'', ''Paint'', ''Tin'', ''MAX_SIZE'', ''paint_set''),
       \<lparr>mode = ''ManyToOne'', modelA = ''Paint'', modelB = ''Tin'', fieldA = ''MAX_SIZE'',
          fieldB = Some ''paint_set'', reverse_created = False\<rparr>)] =
     ([((''ManyToOne'', ''Paint'', ''Tin'', ''MAX_SIZE'', ''paint_set''),
       \<lparr>mode = ''ManyToOne'', modelA = ''Paint'', modelB = ''Tin'', fieldA = ''MAX_SIZE'',
          fieldB = Some ''paint_set'', reverse_created = False\<rparr>)],
      Inr [(''MAX_SIZE'', VOther False),
           (''size'', VField \<lparr>fo_class = OtherField ''IntegerField'', fo_kwargs = []\<rparr>)]) \<and>
   map_of [(''MAX_SIZE'', VOther False),
           (''size'', VField \<lparr>fo_class = OtherField ''IntegerField'', fo_kwargs = []\<rparr>)] ''MAX_SIZE'' =
     Some (VOther False) \<and>
   TypedModelBase_new types_to_fields (\<lambda>c kw. None) ''Paint''
     [(''MAX_SIZE'', Class ''int'')] [(''MAX_SIZE'', VOther False)] [(''abstract'', KBool True)] [] =
     ([], Inr [(''MAX_SIZE'', VOther False), (''Meta'', VMeta [(''abstract'', KBool True)])]) \<and>
   map_of [(''MAX_SIZE'', VOther False), (''Meta'', VMeta [(''abstract'', KBool True)])] ''Meta'' =
     Some (VMeta [(''abstract'', KBool True)])"
proof -
  let ?reg = "[((''ManyToOne'', ''Paint'', ''Tin'', ''MAX_SIZE'', ''paint_set''),
       \<lparr>mode = ''ManyToOne'', modelA = ''Paint'', modelB = ''Tin'', fieldA = ''MAX_SIZE'',
          fieldB = Some ''paint_set'', reverse_created = False\<rparr>)]"
  let ?ann = "[(''MAX_SIZE'', Class ''int''), (''size'', Class ''int'')]"
  let ?dct = "[(''MAX_SIZE'', VOther False)]"
  let ?dct' = "[(''MAX_SIZE'', VOther False),
           (''size'', VField \<lparr>fo_class = OtherField ''IntegerField'', fo_kwargs = []\<rparr>)]"
  have h0: "CHR ''M'' \<in> set ''ABCDEFGHIJKLMNOPQRSTUVWXYZ0123456789''" by simp
  have h1: "CHR ''M'' \<in> set ''MAX_SIZE''" by simp
  have r: "TypedModelBase_new types_to_fields (\<lambda>c kw. None) ''Paint'' ?ann ?dct [] ?reg = (?reg, Inr ?dct')"
    by (simp add: lookup_eval step_eval)
  have h3: "map_of (fst (TypedModelBase_new types_to_fields (\<lambda>c kw. None) ''Paint'' ?ann ?dct [] ?reg))
      (''ManyToOne'', ''Paint'', ''Tin'', ''MAX_SIZE'', ''paint_set'') \<noteq> None"
    unfolding r by simp
  note t = non_snake_case_untouched[of "CHR ''M''" "''MAX_SIZE''" types_to_fields "\<lambda>c kw. None" "''Paint''"
      "Class ''int''" ?dct ?reg ?ann "[]" ?reg ?dct' "''ManyToOne''" "''Tin''" "''paint_set''"]
  from t h0 have n: "\<not> (islower (CHR ''M'') \<or> CHR ''M'' = CHR ''_'')" by blast
  with h1 have e: "\<exists>c\<in>set ''MAX_SIZE''. \<not> (islower c \<or> c = CHR ''_'')" by blast
  from t e have a: "is_snake_case ''MAX_SIZE'' = False" by blast
  from t e r have b: "map_of ?dct' ''MAX_SIZE'' = map_of ?dct ''MAX_SIZE''" by blast
  from t e h3 have "map_of ?reg (''ManyToOne'', ''Paint'', ''Tin'', ''MAX_SIZE'', ''paint_set'') \<noteq> None"
    by blast
  let ?kw = "[(''abstract'', KBool True)]"
  let ?dct2 = "[(''MAX_SIZE'', VOther False), (''Meta'', VMeta [(''abstract'', KBool True)])]"
  have r2: "TypedModelBase_new types_to_fields (\<lambda>c kw. None) ''Paint''
      [(''MAX_SIZE'', Class ''int'')] ?dct ?kw [] = ([], Inr ?dct2)"
    by (simp add: step_eval)
  have k: "?kw \<noteq> []" by simp
  from non_snake_case_untouched[of "CHR ''M''" "''MAX_SIZE''" types_to_fields "\<lambda>c kw. None" "''Paint''"
      "Class ''int''" ?dct "[]" "[(''MAX_SIZE'', Class ''int'')]" ?kw "[]" ?dct2] k r2
  have c: "map_of ?dct2 ''Meta'' = Some (VMeta ?kw)" by blast
  show ?thesis using h1 a b r r2 c by simp
qed

end
